theory Spec2Isabelle
  imports Complex_Main
begin

section \<open>Python values, exceptions and the tool boundary\<close>

text \<open>
  The gateway \<^verbatim>\<open>pyautogui-mcp.py\<close> is a catalogue of thirty tools. Each tool forwards to
  the automation library and shapes the outcome into a dictionary (the envelope). The
  library, the image object, the file system and the dialogs are not part of the
  repository: they are a parameter of the model (the record \<open>backend\<close> below), and every
  theorem holds for every backend.

  Strings are lists of characters read as code points below 256. Floats are only passed
  through by the tools (durations, intervals, confidence), never computed with; they are
  carried as \<open>real\<close>. The interpreter's configurable limit on the decimal conversion of
  very large integers is not modelled.
\<close>

datatype pyval =
    PyNone
  | PyBool bool
  | PyInt int
  | PyFloat real
  | PyStr string
  | PyList "pyval list"
  | PyDict "(string \<times> pyval) list"

type_synonym envelope = "(string \<times> pyval) list"

text \<open>
  The \<^verbatim>\<open>except\<close> clauses of the source distinguish exceptions by class only:
  \<^verbatim>\<open>pyautogui.PyAutoGUIException\<close> (with its subclasses), any other subclass of
  \<^verbatim>\<open>Exception\<close> (\<^verbatim>\<open>ValueError\<close> is singled out because the source raises it itself), and
  the exceptions that are not subclasses of \<^verbatim>\<open>Exception\<close> (\<^verbatim>\<open>KeyboardInterrupt\<close>,
  \<^verbatim>\<open>SystemExit\<close>). \<open>str_exn e\<close> is \<^verbatim>\<open>str(e)\<close>.
\<close>

datatype exn_class = PyAutoGUIException | ValueError | OtherException | NonException

datatype exn = Exn (cls: exn_class) (str_exn: string)

definition is_PyAutoGUIException :: "exn \<Rightarrow> bool" where
  "is_PyAutoGUIException e = (cls e = PyAutoGUIException)"

definition is_Exception :: "exn \<Rightarrow> bool" where
  "is_Exception e = (cls e \<noteq> NonException)"

text \<open>A tool call either returns an envelope or lets an exception leave the tool.\<close>

datatype outcome = Returned envelope | Raised exn

text \<open>
  The process state: the two module-level settings of the library that the gateway sets at
  start-up, and the state of the host (screen, pointer, keyboard, windows, files), which
  only the backend reads and changes.
\<close>

record 'w gateway =
  FAILSAFE :: bool
  PAUSE :: real
  host :: 'w

definition startup :: "'w \<Rightarrow> 'w gateway" where
  "startup w = \<lparr>FAILSAFE = True, PAUSE = 1 / 10, host = w\<rparr>"

text \<open>
  A Python computation over a state: it ends with a value or with a raised exception, and
  the state it leaves behind.
\<close>

type_synonym ('s, 'a) py = "'s \<Rightarrow> (exn + 'a) \<times> 's"

definition return_py :: "'a \<Rightarrow> ('s, 'a) py" where
  "return_py v s = (Inr v, s)"

definition raise_py :: "exn \<Rightarrow> ('s, 'a) py" where
  "raise_py e s = (Inl e, s)"

definition bind_py :: "('s, 'a) py \<Rightarrow> ('a \<Rightarrow> ('s, 'b) py) \<Rightarrow> ('s, 'b) py" where
  "bind_py m f s = (case m s of (Inl e, s') \<Rightarrow> (Inl e, s') | (Inr v, s') \<Rightarrow> f v s')"

text \<open>
  \<^verbatim>\<open>try: body  except C as e: return handler(e)\<close>: an exception of a class that the clause
  does not name leaves the tool.
\<close>

definition try_except ::
  "(exn \<Rightarrow> bool) \<Rightarrow> ('s, envelope) py \<Rightarrow> (exn \<Rightarrow> envelope) \<Rightarrow> 's \<Rightarrow> outcome \<times> 's" where
  "try_except catches body handler s =
     (case body s of
        (Inr env, s') \<Rightarrow> (Returned env, s')
      | (Inl e, s') \<Rightarrow> (if catches e then Returned (handler e) else Raised e, s'))"

section \<open>The string operations of Python that the tools use\<close>

text \<open>\<^verbatim>\<open>str(n)\<close> and \<^verbatim>\<open>f"{n}"\<close> for an integer.\<close>

fun str_nat :: "nat \<Rightarrow> string" where
  "str_nat n =
     (if n < 10 then [''0123456789'' ! n]
      else str_nat (n div 10) @ [''0123456789'' ! (n mod 10)])"

definition str_int :: "int \<Rightarrow> string" where
  "str_int i = (if i < 0 then CHR ''-'' # str_nat (nat (- i)) else str_nat (nat i))"

text \<open>\<^verbatim>\<open>f"{n:02x}"\<close>: lower-case hexadecimal, zero-padded to width two, the sign counted.\<close>

fun hex_nat :: "nat \<Rightarrow> string" where
  "hex_nat n =
     (if n < 16 then [''0123456789abcdef'' ! n]
      else hex_nat (n div 16) @ [''0123456789abcdef'' ! (n mod 16)])"

definition format_02x :: "int \<Rightarrow> string" where
  "format_02x i =
     (if i < 0 then CHR ''-'' # hex_nat (nat (- i))
      else if i < 16 then CHR ''0'' # hex_nat (nat i)
      else hex_nat (nat i))"

text \<open>\<^verbatim>\<open>s.startswith(c)\<close> and \<^verbatim>\<open>s.endswith(c)\<close> for a one-character \<open>c\<close>.\<close>

definition startswith :: "string \<Rightarrow> char \<Rightarrow> bool" where
  "startswith s c = (case s of [] \<Rightarrow> False | x # _ \<Rightarrow> x = c)"

definition endswith :: "string \<Rightarrow> char \<Rightarrow> bool" where
  "endswith s c = startswith (rev s) c"

text \<open>\<^verbatim>\<open>s.lstrip(chars)\<close> and \<^verbatim>\<open>s.strip(chars)\<close>.\<close>

definition lstrip_chars :: "string \<Rightarrow> string \<Rightarrow> string" where
  "lstrip_chars chars s = dropWhile (\<lambda>c. c \<in> set chars) s"

definition strip_chars :: "string \<Rightarrow> string \<Rightarrow> string" where
  "strip_chars chars s = rev (lstrip_chars chars (rev (lstrip_chars chars s)))"

text \<open>
  \<^verbatim>\<open>s.strip()\<close> removes white space: for code points below 256 these are 9 to 13, 28 to
  32, 133 and 160.
\<close>

definition py_isspace :: "char \<Rightarrow> bool" where
  "py_isspace c =
     (let n = (of_char c :: nat)
      in (9 \<le> n \<and> n \<le> 13) \<or> (28 \<le> n \<and> n \<le> 32) \<or> n = 133 \<or> n = 160)"

definition strip :: "string \<Rightarrow> string" where
  "strip s = rev (dropWhile py_isspace (rev (dropWhile py_isspace s)))"

text \<open>\<^verbatim>\<open>s.split(',')\<close>: one more part than there are commas.\<close>

fun split_comma :: "string \<Rightarrow> string list" where
  "split_comma [] = [[]]"
| "split_comma (c # cs) =
     (if c = CHR '','' then [] # split_comma cs
      else (case split_comma cs of p # ps \<Rightarrow> (c # p) # ps | [] \<Rightarrow> [[c]]))"

text \<open>\<^verbatim>\<open>sep.join(parts)\<close>.\<close>

fun join_str :: "string \<Rightarrow> string list \<Rightarrow> string" where
  "join_str sep [] = []"
| "join_str sep [p] = p"
| "join_str sep (p # q # ps) = p @ sep @ join_str sep (q # ps)"

text \<open>
  \<^verbatim>\<open>repr(s)\<close> of a string: double quotes when \<open>s\<close> holds a single quote and no double
  quote, single quotes otherwise; the quote and the backslash are escaped, tab, newline
  and carriage return are written with their letters, every other character that is not
  printable as \<^verbatim>\<open>\xhh\<close>.
\<close>

definition repr_char :: "char \<Rightarrow> char \<Rightarrow> string" where
  "repr_char quote c =
     (let n = (of_char c :: nat) in
      if c = quote \<or> c = CHR 0x5C then [CHR 0x5C, c]
      else if n = 9 then [CHR 0x5C, CHR ''t'']
      else if n = 10 then [CHR 0x5C, CHR ''n'']
      else if n = 13 then [CHR 0x5C, CHR ''r'']
      else if n < 32 \<or> (127 \<le> n \<and> n \<le> 160) \<or> n = 173
        then [CHR 0x5C, CHR ''x'', ''0123456789abcdef'' ! (n div 16), ''0123456789abcdef'' ! (n mod 16)]
      else [c])"

definition py_repr :: "string \<Rightarrow> string" where
  "py_repr s =
     (let quote = (if CHR 0x27 \<in> set s \<and> CHR 0x22 \<notin> set s then CHR 0x22 else CHR 0x27)
      in quote # concat (map (repr_char quote) s) @ [quote])"

text \<open>
  \<^verbatim>\<open>int(s, base)\<close> for base 10 or 16. The digit value of a character is 0 to 9 for the
  digits, 10 to 35 for the letters of either case, and 37 (no digit of any base) for every
  other character. White space around the number is skipped (9 to 13, 32, and 133 and 160,
  which the conversion first turns into spaces), a sign may come first, base 16 allows the
  prefix \<^verbatim>\<open>0x\<close>, and single underscores may separate digits.
\<close>

definition digit_value :: "char \<Rightarrow> nat" where
  "digit_value c =
     (let n = (of_char c :: nat) in
      if 48 \<le> n \<and> n \<le> 57 then n - 48
      else if 97 \<le> n \<and> n \<le> 122 then n - 87
      else if 65 \<le> n \<and> n \<le> 90 then n - 55
      else 37)"

definition int_space :: "char \<Rightarrow> bool" where
  "int_space c =
     (let n = (of_char c :: nat)
      in (9 \<le> n \<and> n \<le> 13) \<or> n = 32 \<or> n = 133 \<or> n = 160)"

text \<open>
  The scan over digits and underscores: the value read, the number of digits, and the rest
  of the string; \<open>None\<close> for a doubled or trailing underscore.
\<close>

fun scan_digits :: "nat \<Rightarrow> string \<Rightarrow> char \<Rightarrow> nat \<Rightarrow> nat \<Rightarrow> (nat \<times> nat \<times> string) option" where
  "scan_digits base [] prev acc n = (if prev = CHR ''_'' then None else Some (acc, n, []))"
| "scan_digits base (c # cs) prev acc n =
     (if c = CHR ''_'' then (if prev = CHR ''_'' then None else scan_digits base cs c acc n)
      else if digit_value c < base then scan_digits base cs c (acc * base + digit_value c) (Suc n)
      else if prev = CHR ''_'' then None
      else Some (acc, n, c # cs))"

definition skip_sign :: "string \<Rightarrow> bool \<times> string" where
  "skip_sign s =
     (case s of
        [] \<Rightarrow> (False, [])
      | c # r \<Rightarrow> if c = CHR ''+'' then (False, r) else if c = CHR ''-'' then (True, r) else (False, s))"

definition skip_prefix :: "nat \<Rightarrow> string \<Rightarrow> string" where
  "skip_prefix base s =
     (case s of
        c0 # c1 # r \<Rightarrow>
          if base = 16 \<and> c0 = CHR ''0'' \<and> (c1 = CHR ''x'' \<or> c1 = CHR ''X'')
          then (if startswith r (CHR ''_'') then tl r else r)
          else s
      | _ \<Rightarrow> s)"

definition py_int :: "nat \<Rightarrow> string \<Rightarrow> int option" where
  "py_int base s =
     (case skip_sign (dropWhile int_space s) of
        (neg, s2) \<Rightarrow>
          (let s3 = skip_prefix base s2 in
           if startswith s3 (CHR ''_'') then None
           else (case scan_digits base s3 (CHR 0x00) 0 0 of
                   None \<Rightarrow> None
                 | Some (v, n, rest) \<Rightarrow>
                     if n = 0 \<or> dropWhile int_space rest \<noteq> [] then None
                     else Some (if neg then - int v else int v))))"

text \<open>The \<^verbatim>\<open>ValueError\<close> that \<^verbatim>\<open>int\<close> raises on a string it does not accept.\<close>

definition invalid_literal :: "nat \<Rightarrow> string \<Rightarrow> exn" where
  "invalid_literal base s =
     Exn ValueError (''invalid literal for int() with base '' @ str_nat base @ '': '' @ take 200 (py_repr s))"

definition int_of_str :: "nat \<Rightarrow> string \<Rightarrow> exn + int" where
  "int_of_str base s = (case py_int base s of None \<Rightarrow> Inl (invalid_literal base s) | Some i \<Rightarrow> Inr i)"

text \<open>
  \<^verbatim>\<open>os.path.basename\<close> and \<^verbatim>\<open>os.path.join\<close> of two parts, as \<^verbatim>\<open>posixpath\<close> defines them:
  the base name is what follows the last slash; a second part that starts with a slash
  replaces the first, otherwise the parts are put together with one slash between them
  unless the first is empty or ends with one.
\<close>

definition basename :: "string \<Rightarrow> string" where
  "basename p = rev (takeWhile (\<lambda>c. c \<noteq> CHR ''/'') (rev p))"

definition join :: "string \<Rightarrow> string \<Rightarrow> string" where
  "join a b =
     (if startswith b (CHR ''/'') then b
      else if a = [] \<or> endswith a (CHR ''/'') then a @ b
      else a @ ''/'' @ b)"

section \<open>The backend\<close>

text \<open>
  What the automation library returns: a \<^verbatim>\<open>Box\<close> for a located image, a window object
  (the five attributes the gateway reads).
\<close>

record box =
  box_left :: int
  box_top :: int
  box_width :: int
  box_height :: int

record window =
  win_title :: string
  win_left :: int
  win_top :: int
  win_width :: int
  win_height :: int

text \<open>
  One field for each call that leaves the gateway. A region or a list of options that the
  source does not pass is \<open>None\<close>. \<open>image_save_png\<close> is \<^verbatim>\<open>img.save(buffered, format="PNG")\<close>
  followed by \<^verbatim>\<open>buffered.getvalue()\<close>; \<open>b64encode\<close> is \<^verbatim>\<open>base64.b64encode\<close> decoded as
  text; \<open>image_save\<close> is \<^verbatim>\<open>img.save(path)\<close>. The dialogs return the text entered or the
  button pressed, or \<^verbatim>\<open>None\<close>.
\<close>

record ('w, 'img) backend =
  pyautogui_moveTo :: "int \<Rightarrow> int \<Rightarrow> real \<Rightarrow> ('w gateway, unit) py"
  pyautogui_moveRel :: "int \<Rightarrow> int \<Rightarrow> real \<Rightarrow> ('w gateway, unit) py"
  pyautogui_click :: "int option \<Rightarrow> int option \<Rightarrow> int \<Rightarrow> real \<Rightarrow> string \<Rightarrow> ('w gateway, unit) py"
  pyautogui_doubleClick :: "int option \<Rightarrow> int option \<Rightarrow> string \<Rightarrow> ('w gateway, unit) py"
  pyautogui_rightClick :: "int option \<Rightarrow> int option \<Rightarrow> ('w gateway, unit) py"
  pyautogui_dragTo :: "int \<Rightarrow> int \<Rightarrow> real \<Rightarrow> string \<Rightarrow> ('w gateway, unit) py"
  pyautogui_dragRel :: "int \<Rightarrow> int \<Rightarrow> real \<Rightarrow> string \<Rightarrow> ('w gateway, unit) py"
  pyautogui_scroll :: "int \<Rightarrow> int option \<Rightarrow> int option \<Rightarrow> ('w gateway, unit) py"
  pyautogui_position :: "('w gateway, int \<times> int) py"
  pyautogui_write :: "string \<Rightarrow> real \<Rightarrow> ('w gateway, unit) py"
  pyautogui_press :: "string \<Rightarrow> ('w gateway, unit) py"
  pyautogui_keyDown :: "string \<Rightarrow> ('w gateway, unit) py"
  pyautogui_keyUp :: "string \<Rightarrow> ('w gateway, unit) py"
  pyautogui_hotkey :: "string list \<Rightarrow> ('w gateway, unit) py"
  pyautogui_screenshot :: "int list option \<Rightarrow> ('w gateway, 'img) py"
  image_save_png :: "'img \<Rightarrow> ('w gateway, string) py"
  b64encode :: "string \<Rightarrow> string"
  os_makedirs :: "string \<Rightarrow> ('w gateway, unit) py"
  image_save :: "'img \<Rightarrow> string \<Rightarrow> ('w gateway, unit) py"
  pyautogui_locateOnScreen :: "string \<Rightarrow> int list option \<Rightarrow> real \<Rightarrow> ('w gateway, box option) py"
  pyautogui_locateCenterOnScreen ::
    "string \<Rightarrow> int list option \<Rightarrow> real \<Rightarrow> ('w gateway, (int \<times> int) option) py"
  pyautogui_pixel :: "int \<Rightarrow> int \<Rightarrow> ('w gateway, int \<times> int \<times> int) py"
  pyautogui_pixelMatchesColor :: "int \<Rightarrow> int \<Rightarrow> int list \<Rightarrow> int \<Rightarrow> ('w gateway, bool) py"
  pyautogui_size :: "('w gateway, int \<times> int) py"
  pyautogui_getActiveWindowTitle :: "('w gateway, string option) py"
  pyautogui_getAllTitles :: "('w gateway, string list) py"
  pyautogui_getWindowsWithTitle :: "string \<Rightarrow> ('w gateway, window list) py"
  pyautogui_alert :: "string \<Rightarrow> string \<Rightarrow> ('w gateway, string option) py"
  pyautogui_confirm :: "string \<Rightarrow> string \<Rightarrow> string list option \<Rightarrow> ('w gateway, string option) py"
  pyautogui_prompt :: "string \<Rightarrow> string \<Rightarrow> string \<Rightarrow> ('w gateway, string option) py"
  pyautogui_password :: "string \<Rightarrow> string \<Rightarrow> string \<Rightarrow> ('w gateway, string option) py"
  pyautogui_countdown :: "int \<Rightarrow> ('w gateway, unit) py"
  pyautogui_displayMousePosition :: "int \<Rightarrow> ('w gateway, unit) py"

text \<open>A value that may be \<^verbatim>\<open>None\<close>, as it is echoed in an envelope.\<close>

definition opt_int :: "int option \<Rightarrow> pyval" where
  "opt_int x = (case x of None \<Rightarrow> PyNone | Some i \<Rightarrow> PyInt i)"

definition opt_str :: "string option \<Rightarrow> pyval" where
  "opt_str x = (case x of None \<Rightarrow> PyNone | Some s \<Rightarrow> PyStr s)"

definition opt_region :: "int list option \<Rightarrow> pyval" where
  "opt_region r = (case r of None \<Rightarrow> PyNone | Some xs \<Rightarrow> PyList (map PyInt xs))"

text \<open>The envelope of the \<^verbatim>\<open>except pyautogui.PyAutoGUIException\<close> clauses.\<close>

definition error_envelope :: "exn \<Rightarrow> envelope" where
  "error_envelope e = [(''error'', PyStr (str_exn e))]"

section \<open>Mouse control tools\<close>

definition move_mouse ::
  "('w, 'img) backend \<Rightarrow> int \<Rightarrow> int \<Rightarrow> real \<Rightarrow> 'w gateway \<Rightarrow> outcome \<times> 'w gateway" where
  "move_mouse bk x y duration =
     try_except is_PyAutoGUIException
       (bind_py (pyautogui_moveTo bk x y duration) (\<lambda>_.
          return_py
            [(''x'', PyInt x), (''y'', PyInt y),
             (''message'', PyStr (''Mouse moved to ('' @ str_int x @ '', '' @ str_int y @ '')''))]))
       error_envelope"

definition move_mouse_relative ::
  "('w, 'img) backend \<Rightarrow> int \<Rightarrow> int \<Rightarrow> real \<Rightarrow> 'w gateway \<Rightarrow> outcome \<times> 'w gateway" where
  "move_mouse_relative bk dx dy duration =
     try_except is_PyAutoGUIException
       (bind_py (pyautogui_moveRel bk dx dy duration) (\<lambda>_.
          return_py
            [(''dx'', PyInt dx), (''dy'', PyInt dy),
             (''message'',
              PyStr (''Mouse moved relative by ('' @ str_int dx @ '', '' @ str_int dy @ '')''))]))
       error_envelope"

definition click ::
  "('w, 'img) backend \<Rightarrow> int option \<Rightarrow> int option \<Rightarrow> int \<Rightarrow> real \<Rightarrow> string \<Rightarrow>
     'w gateway \<Rightarrow> outcome \<times> 'w gateway" where
  "click bk x y clicks interval button =
     try_except is_PyAutoGUIException
       (bind_py (pyautogui_click bk x y clicks interval button) (\<lambda>_.
          let click_location =
                (case (x, y) of
                   (Some xv, Some yv) \<Rightarrow> ''at ('' @ str_int xv @ '', '' @ str_int yv @ '')''
                 | _ \<Rightarrow> ''at current mouse position'')
          in return_py
               [(''x'', opt_int x), (''y'', opt_int y), (''clicks'', PyInt clicks),
                (''button'', PyStr button),
                (''message'',
                 PyStr (''Clicked '' @ button @ '' button '' @ str_int clicks @ '' time(s) ''
                        @ click_location))]))
       error_envelope"

definition double_click ::
  "('w, 'img) backend \<Rightarrow> int option \<Rightarrow> int option \<Rightarrow> string \<Rightarrow> 'w gateway \<Rightarrow> outcome \<times> 'w gateway" where
  "double_click bk x y button =
     try_except is_PyAutoGUIException
       (bind_py (pyautogui_doubleClick bk x y button) (\<lambda>_.
          return_py
            [(''x'', opt_int x), (''y'', opt_int y), (''button'', PyStr button),
             (''message'', PyStr (''Double-clicked '' @ button @ '' button''))]))
       error_envelope"

definition right_click ::
  "('w, 'img) backend \<Rightarrow> int option \<Rightarrow> int option \<Rightarrow> 'w gateway \<Rightarrow> outcome \<times> 'w gateway" where
  "right_click bk x y =
     try_except is_PyAutoGUIException
       (bind_py (pyautogui_rightClick bk x y) (\<lambda>_.
          return_py [(''x'', opt_int x), (''y'', opt_int y), (''message'', PyStr ''Right-clicked'')]))
       error_envelope"

definition drag_to ::
  "('w, 'img) backend \<Rightarrow> int \<Rightarrow> int \<Rightarrow> real \<Rightarrow> string \<Rightarrow> 'w gateway \<Rightarrow> outcome \<times> 'w gateway" where
  "drag_to bk x y duration button =
     try_except is_PyAutoGUIException
       (bind_py (pyautogui_dragTo bk x y duration button) (\<lambda>_.
          return_py
            [(''x'', PyInt x), (''y'', PyInt y), (''duration'', PyFloat duration),
             (''message'', PyStr (''Dragged to ('' @ str_int x @ '', '' @ str_int y @ '')''))]))
       error_envelope"

definition drag_relative ::
  "('w, 'img) backend \<Rightarrow> int \<Rightarrow> int \<Rightarrow> real \<Rightarrow> string \<Rightarrow> 'w gateway \<Rightarrow> outcome \<times> 'w gateway" where
  "drag_relative bk dx dy duration button =
     try_except is_PyAutoGUIException
       (bind_py (pyautogui_dragRel bk dx dy duration button) (\<lambda>_.
          return_py
            [(''dx'', PyInt dx), (''dy'', PyInt dy),
             (''message'',
              PyStr (''Dragged relative by ('' @ str_int dx @ '', '' @ str_int dy @ '')''))]))
       error_envelope"

definition scroll ::
  "('w, 'img) backend \<Rightarrow> int \<Rightarrow> int option \<Rightarrow> int option \<Rightarrow> 'w gateway \<Rightarrow> outcome \<times> 'w gateway" where
  "scroll bk clicks x y =
     try_except is_PyAutoGUIException
       (bind_py (pyautogui_scroll bk clicks x y) (\<lambda>_.
          return_py
            [(''clicks'', PyInt clicks), (''x'', opt_int x), (''y'', opt_int y),
             (''message'', PyStr (''Scrolled '' @ str_int clicks @ '' clicks''))]))
       error_envelope"

definition get_mouse_position ::
  "('w, 'img) backend \<Rightarrow> 'w gateway \<Rightarrow> outcome \<times> 'w gateway" where
  "get_mouse_position bk =
     try_except is_PyAutoGUIException
       (bind_py (pyautogui_position bk) (\<lambda>(x, y).
          return_py [(''x'', PyInt x), (''y'', PyInt y)]))
       error_envelope"

section \<open>Keyboard tools\<close>

definition type_text ::
  "('w, 'img) backend \<Rightarrow> string \<Rightarrow> real \<Rightarrow> 'w gateway \<Rightarrow> outcome \<times> 'w gateway" where
  "type_text bk text interval =
     try_except is_PyAutoGUIException
       (bind_py (pyautogui_write bk text interval) (\<lambda>_.
          return_py
            [(''text'', PyStr text),
             (''message'', PyStr (''Typed text: '' @ take 50 text @ ''...''))]))
       error_envelope"

definition press_key ::
  "('w, 'img) backend \<Rightarrow> string \<Rightarrow> 'w gateway \<Rightarrow> outcome \<times> 'w gateway" where
  "press_key bk key =
     try_except is_PyAutoGUIException
       (bind_py (pyautogui_press bk key) (\<lambda>_.
          return_py [(''key'', PyStr key), (''message'', PyStr (''Pressed key: '' @ key))]))
       error_envelope"

definition key_down ::
  "('w, 'img) backend \<Rightarrow> string \<Rightarrow> 'w gateway \<Rightarrow> outcome \<times> 'w gateway" where
  "key_down bk key =
     try_except is_PyAutoGUIException
       (bind_py (pyautogui_keyDown bk key) (\<lambda>_.
          return_py [(''key'', PyStr key), (''message'', PyStr (''Key held down: '' @ key))]))
       error_envelope"

definition key_up ::
  "('w, 'img) backend \<Rightarrow> string \<Rightarrow> 'w gateway \<Rightarrow> outcome \<times> 'w gateway" where
  "key_up bk key =
     try_except is_PyAutoGUIException
       (bind_py (pyautogui_keyUp bk key) (\<lambda>_.
          return_py [(''key'', PyStr key), (''message'', PyStr (''Key released: '' @ key))]))
       error_envelope"

definition hotkey ::
  "('w, 'img) backend \<Rightarrow> string list \<Rightarrow> 'w gateway \<Rightarrow> outcome \<times> 'w gateway" where
  "hotkey bk keys =
     try_except is_PyAutoGUIException
       (bind_py (pyautogui_hotkey bk keys) (\<lambda>_.
          return_py
            [(''keys'', PyList (map PyStr keys)),
             (''message'', PyStr (''Pressed hotkey: '' @ join_str ''+'' keys))]))
       error_envelope"

section \<open>Screen capture tools\<close>

text \<open>
  \<^verbatim>\<open>if region:\<close> holds for a region that is given and not the empty list; the same test
  decides \<^verbatim>\<open>if options:\<close>.
\<close>

definition truthy_list :: "'a list option \<Rightarrow> bool" where
  "truthy_list r = (case r of None \<Rightarrow> False | Some xs \<Rightarrow> xs \<noteq> [])"

definition truthy_str :: "string option \<Rightarrow> bool" where
  "truthy_str r = (case r of None \<Rightarrow> False | Some s \<Rightarrow> s \<noteq> [])"

definition screenshots_dir :: string where
  "screenshots_dir = ''screenshots''"

definition screenshot ::
  "('w, 'img) backend \<Rightarrow> string option \<Rightarrow> int list option \<Rightarrow> 'w gateway \<Rightarrow> outcome \<times> 'w gateway" where
  "screenshot bk filename region =
     try_except is_PyAutoGUIException
       (bind_py (pyautogui_screenshot bk region) (\<lambda>img.
          case filename of
            None \<Rightarrow>
              bind_py (image_save_png bk img) (\<lambda>buffered.
                let img_str = b64encode bk buffered
                in return_py
                     [(''message'', PyStr ''Screenshot taken''), (''region'', opt_region region),
                      (''image_base64'', PyStr img_str)])
          | Some fname \<Rightarrow>
              bind_py (os_makedirs bk screenshots_dir) (\<lambda>_.
                let safe_filename = basename fname;
                    save_path = join screenshots_dir safe_filename
                in bind_py (image_save bk img save_path) (\<lambda>_.
                     return_py
                       [(''filename'', PyStr save_path), (''region'', opt_region region),
                        (''message'', PyStr (''Screenshot saved to '' @ save_path))]))))
       error_envelope"

text \<open>The envelope of the \<^verbatim>\<open>except Exception\<close> clause of the two image-location tools.\<close>

definition locate_error_envelope :: "exn \<Rightarrow> envelope" where
  "locate_error_envelope e =
     [(''found'', PyBool False), (''error'', PyStr (str_exn e)),
      (''message'', PyStr (''Error finding image: '' @ str_exn e))]"

definition locate_on_screen ::
  "('w, 'img) backend \<Rightarrow> string \<Rightarrow> int list option \<Rightarrow> real \<Rightarrow> 'w gateway \<Rightarrow> outcome \<times> 'w gateway" where
  "locate_on_screen bk image_path region confidence =
     try_except is_Exception
       (bind_py
          (if truthy_list region then pyautogui_locateOnScreen bk image_path region confidence
           else pyautogui_locateOnScreen bk image_path None confidence)
          (\<lambda>pos.
             case pos of
               Some p \<Rightarrow>
                 return_py
                   [(''found'', PyBool True), (''left'', PyInt (box_left p)),
                    (''top'', PyInt (box_top p)), (''width'', PyInt (box_width p)),
                    (''height'', PyInt (box_height p)),
                    (''message'',
                     PyStr (''Found image at ('' @ str_int (box_left p) @ '', ''
                            @ str_int (box_top p) @ '')''))]
             | None \<Rightarrow>
                 return_py
                   [(''found'', PyBool False), (''message'', PyStr ''Image not found on screen'')]))
       locate_error_envelope"

definition locate_center_on_screen ::
  "('w, 'img) backend \<Rightarrow> string \<Rightarrow> int list option \<Rightarrow> real \<Rightarrow> 'w gateway \<Rightarrow> outcome \<times> 'w gateway" where
  "locate_center_on_screen bk image_path region confidence =
     try_except is_Exception
       (bind_py
          (if truthy_list region then pyautogui_locateCenterOnScreen bk image_path region confidence
           else pyautogui_locateCenterOnScreen bk image_path None confidence)
          (\<lambda>pos.
             case pos of
               Some (px, py) \<Rightarrow>
                 return_py
                   [(''found'', PyBool True), (''x'', PyInt px), (''y'', PyInt py),
                    (''message'',
                     PyStr (''Found image center at ('' @ str_int px @ '', '' @ str_int py @ '')''))]
             | None \<Rightarrow>
                 return_py
                   [(''found'', PyBool False), (''message'', PyStr ''Image not found on screen'')]))
       locate_error_envelope"

definition get_pixel_color ::
  "('w, 'img) backend \<Rightarrow> int \<Rightarrow> int \<Rightarrow> 'w gateway \<Rightarrow> outcome \<times> 'w gateway" where
  "get_pixel_color bk x y =
     try_except is_PyAutoGUIException
       (bind_py (pyautogui_pixel bk x y) (\<lambda>(r, g, b).
          return_py
            [(''x'', PyInt x), (''y'', PyInt y), (''r'', PyInt r), (''g'', PyInt g),
             (''b'', PyInt b),
             (''hex'', PyStr (''#'' @ format_02x r @ format_02x g @ format_02x b))]))
       error_envelope"

text \<open>
  The generator \<^verbatim>\<open>tuple(int(...) for ...)\<close>: the conversions run from left to right and
  the first one that fails raises.
\<close>

fun ints_of :: "nat \<Rightarrow> string list \<Rightarrow> exn + int list" where
  "ints_of base [] = Inr []"
| "ints_of base (c # cs) =
     (case int_of_str base c of
        Inl e \<Rightarrow> Inl e
      | Inr i \<Rightarrow> (case ints_of base cs of Inl e \<Rightarrow> Inl e | Inr is \<Rightarrow> Inr (i # is)))"

text \<open>
  Lines 458 to 472 of \<^verbatim>\<open>pixel_matches_color\<close>, the parsing of the colour string into
  \<^verbatim>\<open>rgb_tuple\<close>, as a function of their own.
\<close>

definition parse_color :: "string \<Rightarrow> exn + int list" where
  "parse_color color =
     (if startswith color (CHR ''#'') then
        (let hex_color = lstrip_chars ''#'' color in
         if length hex_color = 6
         then ints_of 16 (map (\<lambda>i. take 2 (drop i hex_color)) [0, 2, 4])
         else Inl (Exn ValueError ''Hex color must be in #RRGGBB format.''))
      else if startswith color (CHR ''('') then
        (let color_values = split_comma (strip_chars ''() '' color) in
         if length color_values = 3
         then ints_of 10 (map strip color_values)
         else Inl (Exn ValueError ''RGB color must be a tuple/list of 3 integers.''))
      else Inl (Exn ValueError ''Invalid color format. Use '#RRGGBB' or '(R, G, B)'.''))"

definition color_error_envelope :: "string \<Rightarrow> exn \<Rightarrow> envelope" where
  "color_error_envelope color e =
     [(''error'',
       PyStr (''Failed to process color '' @ [CHR 0x27] @ color @ [CHR 0x27] @ '': '' @ str_exn e))]"

definition pixel_matches_color ::
  "('w, 'img) backend \<Rightarrow> int \<Rightarrow> int \<Rightarrow> string \<Rightarrow> int \<Rightarrow> 'w gateway \<Rightarrow> outcome \<times> 'w gateway" where
  "pixel_matches_color bk x y color tolerance =
     try_except is_Exception
       (bind_py (\<lambda>s. (parse_color color, s)) (\<lambda>rgb_tuple.
          bind_py (pyautogui_pixelMatchesColor bk x y rgb_tuple tolerance) (\<lambda>matches.
            return_py
              [(''x'', PyInt x), (''y'', PyInt y), (''color'', PyStr color),
               (''matches'', PyBool matches)])))
       (color_error_envelope color)"

section \<open>Window management tools\<close>

definition get_screen_size ::
  "('w, 'img) backend \<Rightarrow> 'w gateway \<Rightarrow> outcome \<times> 'w gateway" where
  "get_screen_size bk =
     try_except is_PyAutoGUIException
       (bind_py (pyautogui_size bk) (\<lambda>(width, height).
          return_py [(''width'', PyInt width), (''height'', PyInt height)]))
       error_envelope"

definition get_active_window_title ::
  "('w, 'img) backend \<Rightarrow> 'w gateway \<Rightarrow> outcome \<times> 'w gateway" where
  "get_active_window_title bk =
     try_except is_PyAutoGUIException
       (bind_py (pyautogui_getActiveWindowTitle bk) (\<lambda>title.
          return_py
            [(''title'', (if truthy_str title then opt_str title else PyStr ''None''))]))
       (\<lambda>e. [(''title'', PyNone), (''error'', PyStr (str_exn e))])"

definition get_all_window_titles ::
  "('w, 'img) backend \<Rightarrow> 'w gateway \<Rightarrow> outcome \<times> 'w gateway" where
  "get_all_window_titles bk =
     try_except is_PyAutoGUIException
       (bind_py (pyautogui_getAllTitles bk) (\<lambda>titles.
          return_py
            [(''titles'', PyList (map PyStr titles)), (''count'', PyInt (int (length titles)))]))
       (\<lambda>e. [(''titles'', PyList []), (''count'', PyInt 0), (''error'', PyStr (str_exn e))])"

definition window_dict :: "window \<Rightarrow> pyval" where
  "window_dict win =
     PyDict
       [(''title'', PyStr (win_title win)), (''left'', PyInt (win_left win)),
        (''top'', PyInt (win_top win)), (''width'', PyInt (win_width win)),
        (''height'', PyInt (win_height win))]"

definition get_windows_with_title ::
  "('w, 'img) backend \<Rightarrow> string \<Rightarrow> 'w gateway \<Rightarrow> outcome \<times> 'w gateway" where
  "get_windows_with_title bk title_fragment =
     try_except is_PyAutoGUIException
       (bind_py (pyautogui_getWindowsWithTitle bk title_fragment) (\<lambda>windows.
          let result = map window_dict windows
          in return_py [(''windows'', PyList result), (''count'', PyInt (int (length result)))]))
       (\<lambda>e. [(''windows'', PyList []), (''count'', PyInt 0), (''error'', PyStr (str_exn e))])"

section \<open>User interaction tools\<close>

definition alert ::
  "('w, 'img) backend \<Rightarrow> string \<Rightarrow> string \<Rightarrow> 'w gateway \<Rightarrow> outcome \<times> 'w gateway" where
  "alert bk message title =
     try_except is_PyAutoGUIException
       (bind_py (pyautogui_alert bk message title) (\<lambda>result.
          return_py
            [(''message'', PyStr message), (''title'', PyStr title), (''result'', opt_str result)]))
       error_envelope"

definition confirm ::
  "('w, 'img) backend \<Rightarrow> string \<Rightarrow> string \<Rightarrow> string list option \<Rightarrow> 'w gateway \<Rightarrow>
     outcome \<times> 'w gateway" where
  "confirm bk message title options =
     try_except is_PyAutoGUIException
       (bind_py
          (if truthy_list options then pyautogui_confirm bk message title options
           else pyautogui_confirm bk message title None)
          (\<lambda>result.
             return_py
               [(''message'', PyStr message), (''title'', PyStr title),
                (''options'',
                 PyList (map PyStr
                   (case options of
                      None \<Rightarrow> [''OK'', ''Cancel'']
                    | Some xs \<Rightarrow> if xs = [] then [''OK'', ''Cancel''] else xs))),
                (''result'', opt_str result)]))
       error_envelope"

definition prompt ::
  "('w, 'img) backend \<Rightarrow> string \<Rightarrow> string \<Rightarrow> string \<Rightarrow> 'w gateway \<Rightarrow> outcome \<times> 'w gateway" where
  "prompt bk message title default_text =
     try_except is_PyAutoGUIException
       (bind_py (pyautogui_prompt bk message title default_text) (\<lambda>result.
          return_py
            [(''message'', PyStr message), (''title'', PyStr title), (''default'', PyStr default_text),
             (''result'', opt_str result)]))
       error_envelope"

definition password ::
  "('w, 'img) backend \<Rightarrow> string \<Rightarrow> string \<Rightarrow> string \<Rightarrow> 'w gateway \<Rightarrow> outcome \<times> 'w gateway" where
  "password bk message title mask_str =
     try_except is_PyAutoGUIException
       (bind_py (pyautogui_password bk message title mask_str) (\<lambda>result.
          return_py
            [(''message'', PyStr message), (''title'', PyStr title), (''mask'', PyStr mask_str),
             (''result'', (if truthy_str result then PyStr ''[REDACTED]'' else PyNone))]))
       error_envelope"

section \<open>Utility tools\<close>

definition countdown ::
  "('w, 'img) backend \<Rightarrow> int \<Rightarrow> 'w gateway \<Rightarrow> outcome \<times> 'w gateway" where
  "countdown bk seconds =
     try_except is_PyAutoGUIException
       (bind_py (pyautogui_countdown bk seconds) (\<lambda>_.
          return_py
            [(''seconds'', PyInt seconds),
             (''message'', PyStr (''Countdown completed for '' @ str_int seconds @ '' seconds''))]))
       error_envelope"

definition display_mouse_position ::
  "('w, 'img) backend \<Rightarrow> int \<Rightarrow> 'w gateway \<Rightarrow> outcome \<times> 'w gateway" where
  "display_mouse_position bk seconds =
     try_except is_PyAutoGUIException
       (bind_py (pyautogui_displayMousePosition bk seconds) (\<lambda>_.
          return_py
            [(''seconds'', PyInt seconds),
             (''message'',
              PyStr (''Mouse position displayed for '' @ str_int seconds @ '' seconds''))]))
       error_envelope"

text \<open>\<^verbatim>\<open>fail_safe_check\<close> has no \<^verbatim>\<open>try\<close> and makes no call: it reads the setting.\<close>

definition fail_safe_check :: "'w gateway \<Rightarrow> outcome \<times> 'w gateway" where
  "fail_safe_check s =
     (let enabled = FAILSAFE s
      in (Returned
            [(''enabled'', PyBool enabled),
             (''message'', PyStr (if enabled then ''Failsafe enabled'' else ''Failsafe disabled''))],
          s))"

section \<open>The tool catalogue\<close>

datatype tool_call =
    Move_mouse int int real
  | Move_mouse_relative int int real
  | Click "int option" "int option" int real string
  | Double_click "int option" "int option" string
  | Right_click "int option" "int option"
  | Drag_to int int real string
  | Drag_relative int int real string
  | Scroll int "int option" "int option"
  | Get_mouse_position
  | Type_text string real
  | Press_key string
  | Key_down string
  | Key_up string
  | Hotkey "string list"
  | Screenshot "string option" "int list option"
  | Locate_on_screen string "int list option" real
  | Locate_center_on_screen string "int list option" real
  | Get_pixel_color int int
  | Pixel_matches_color int int string int
  | Get_screen_size
  | Get_active_window_title
  | Get_all_window_titles
  | Get_windows_with_title string
  | Alert string string
  | Confirm string string "string list option"
  | Prompt string string string
  | Password string string string
  | Countdown int
  | Display_mouse_position int
  | Fail_safe_check

fun run_tool :: "('w, 'img) backend \<Rightarrow> tool_call \<Rightarrow> 'w gateway \<Rightarrow> outcome \<times> 'w gateway" where
  "run_tool bk (Move_mouse x y d) = move_mouse bk x y d"
| "run_tool bk (Move_mouse_relative dx dy d) = move_mouse_relative bk dx dy d"
| "run_tool bk (Click x y n i b) = click bk x y n i b"
| "run_tool bk (Double_click x y b) = double_click bk x y b"
| "run_tool bk (Right_click x y) = right_click bk x y"
| "run_tool bk (Drag_to x y d b) = drag_to bk x y d b"
| "run_tool bk (Drag_relative dx dy d b) = drag_relative bk dx dy d b"
| "run_tool bk (Scroll n x y) = scroll bk n x y"
| "run_tool bk Get_mouse_position = get_mouse_position bk"
| "run_tool bk (Type_text t i) = type_text bk t i"
| "run_tool bk (Press_key k) = press_key bk k"
| "run_tool bk (Key_down k) = key_down bk k"
| "run_tool bk (Key_up k) = key_up bk k"
| "run_tool bk (Hotkey ks) = hotkey bk ks"
| "run_tool bk (Screenshot f r) = screenshot bk f r"
| "run_tool bk (Locate_on_screen p r c) = locate_on_screen bk p r c"
| "run_tool bk (Locate_center_on_screen p r c) = locate_center_on_screen bk p r c"
| "run_tool bk (Get_pixel_color x y) = get_pixel_color bk x y"
| "run_tool bk (Pixel_matches_color x y c t) = pixel_matches_color bk x y c t"
| "run_tool bk Get_screen_size = get_screen_size bk"
| "run_tool bk Get_active_window_title = get_active_window_title bk"
| "run_tool bk Get_all_window_titles = get_all_window_titles bk"
| "run_tool bk (Get_windows_with_title t) = get_windows_with_title bk t"
| "run_tool bk (Alert m t) = alert bk m t"
| "run_tool bk (Confirm m t os) = confirm bk m t os"
| "run_tool bk (Prompt m t d) = prompt bk m t d"
| "run_tool bk (Password m t k) = password bk m t k"
| "run_tool bk (Countdown n) = countdown bk n"
| "run_tool bk (Display_mouse_position n) = display_mouse_position bk n"
| "run_tool bk Fail_safe_check = fail_safe_check"

section \<open>Vocabulary of the properties\<close>

text \<open>Keys of an envelope; the success indication is a \<^verbatim>\<open>message\<close> or a \<^verbatim>\<open>found\<close> key.\<close>

definition has_key :: "string \<Rightarrow> envelope \<Rightarrow> bool" where
  "has_key k env = (k \<in> set (map fst env))"

definition success_indication :: "envelope \<Rightarrow> bool" where
  "success_indication env = (has_key ''message'' env \<or> has_key ''found'' env)"

definition exactly_one :: "envelope \<Rightarrow> bool" where
  "exactly_one env = (success_indication env \<noteq> has_key ''error'' env)"

text \<open>The two image-location tools, and the seven tools that answer a query.\<close>

fun is_locate :: "tool_call \<Rightarrow> bool" where
  "is_locate (Locate_on_screen p r c) = True"
| "is_locate (Locate_center_on_screen p r c) = True"
| "is_locate other = False"

fun is_query :: "tool_call \<Rightarrow> bool" where
  "is_query Get_mouse_position = True"
| "is_query (Get_pixel_color x y) = True"
| "is_query (Pixel_matches_color x y c t) = True"
| "is_query Get_screen_size = True"
| "is_query Get_active_window_title = True"
| "is_query Get_all_window_titles = True"
| "is_query (Get_windows_with_title t) = True"
| "is_query other = False"

text \<open>The three tools whose clause is \<^verbatim>\<open>except Exception\<close>.\<close>

fun catches_Exception :: "tool_call \<Rightarrow> bool" where
  "catches_Exception (Locate_on_screen p r c) = True"
| "catches_Exception (Locate_center_on_screen p r c) = True"
| "catches_Exception (Pixel_matches_color x y c t) = True"
| "catches_Exception other = False"

text \<open>
  A path read lexically: its components between slashes, with empty components and
  \<^verbatim>\<open>.\<close> dropped and \<^verbatim>\<open>..\<close> cancelling the component before it (\<open>None\<close> when there is
  none to cancel). A relative path lies within a relative directory (it is the directory
  or leads into it) when its components start with those of the directory.
\<close>

fun split_slash :: "string \<Rightarrow> string list" where
  "split_slash [] = [[]]"
| "split_slash (c # cs) =
     (if c = CHR ''/'' then [] # split_slash cs
      else (case split_slash cs of p # ps \<Rightarrow> (c # p) # ps | [] \<Rightarrow> [[c]]))"

fun resolve :: "string list \<Rightarrow> string list \<Rightarrow> string list option" where
  "resolve stack [] = Some (rev stack)"
| "resolve stack (c # cs) =
     (if c = [] \<or> c = ''.'' then resolve stack cs
      else if c = ''..'' then (case stack of [] \<Rightarrow> None | _ # st \<Rightarrow> resolve st cs)
      else resolve (c # stack) cs)"

definition within_dir :: "string \<Rightarrow> string \<Rightarrow> bool" where
  "within_dir d p =
     (\<not> startswith p (CHR ''/'') \<and>
      (case (resolve [] (split_slash d), resolve [] (split_slash p)) of
         (Some dc, Some pc) \<Rightarrow> take (length dc) pc = dc
       | _ \<Rightarrow> False))"

text \<open>
  The malformed colour strings: neither form, a hexadecimal body that is not six
  characters long, or a parenthesised form that does not hold exactly three integers
  between commas.
\<close>

definition malformed_color :: "string \<Rightarrow> bool" where
  "malformed_color color =
     ((\<not> startswith color (CHR ''#'') \<and> \<not> startswith color (CHR ''(''))
      \<or> (startswith color (CHR ''#'') \<and> length (lstrip_chars ''#'' color) \<noteq> 6)
      \<or> (startswith color (CHR ''('') \<and>
          \<not> (length (split_comma (strip_chars ''() '' color)) = 3 \<and>
             list_all (\<lambda>c. py_int 10 (strip c) \<noteq> None) (split_comma (strip_chars ''() '' color)))))"

definition hex_digit :: "char \<Rightarrow> bool" where
  "hex_digit c = (digit_value c < 16)"

text \<open>A backend on which every call succeeds and leaves the state as it is.\<close>

definition idle_backend :: "(unit, unit) backend" where
  "idle_backend =
     \<lparr>pyautogui_moveTo = (\<lambda>x y d. return_py ()),
      pyautogui_moveRel = (\<lambda>dx dy d. return_py ()),
      pyautogui_click = (\<lambda>x y n i b. return_py ()),
      pyautogui_doubleClick = (\<lambda>x y b. return_py ()),
      pyautogui_rightClick = (\<lambda>x y. return_py ()),
      pyautogui_dragTo = (\<lambda>x y d b. return_py ()),
      pyautogui_dragRel = (\<lambda>dx dy d b. return_py ()),
      pyautogui_scroll = (\<lambda>n x y. return_py ()),
      pyautogui_position = return_py (0, 0),
      pyautogui_write = (\<lambda>t i. return_py ()),
      pyautogui_press = (\<lambda>k. return_py ()),
      pyautogui_keyDown = (\<lambda>k. return_py ()),
      pyautogui_keyUp = (\<lambda>k. return_py ()),
      pyautogui_hotkey = (\<lambda>ks. return_py ()),
      pyautogui_screenshot = (\<lambda>r. return_py ()),
      image_save_png = (\<lambda>img. return_py []),
      b64encode = (\<lambda>bytes. []),
      os_makedirs = (\<lambda>d. return_py ()),
      image_save = (\<lambda>img path. return_py ()),
      pyautogui_locateOnScreen = (\<lambda>p r c. return_py None),
      pyautogui_locateCenterOnScreen = (\<lambda>p r c. return_py None),
      pyautogui_pixel = (\<lambda>x y. return_py (0, 0, 0)),
      pyautogui_pixelMatchesColor = (\<lambda>x y rgb t. return_py False),
      pyautogui_size = return_py (1920, 1080),
      pyautogui_getActiveWindowTitle = return_py None,
      pyautogui_getAllTitles = return_py [],
      pyautogui_getWindowsWithTitle = (\<lambda>t. return_py []),
      pyautogui_alert = (\<lambda>m t. return_py (Some ''OK'')),
      pyautogui_confirm = (\<lambda>m t os. return_py (Some ''OK'')),
      pyautogui_prompt = (\<lambda>m t d. return_py None),
      pyautogui_password = (\<lambda>m t k. return_py None),
      pyautogui_countdown = (\<lambda>n. return_py ()),
      pyautogui_displayMousePosition = (\<lambda>n. return_py ())\<rparr>"

text \<open>
  The class test of a tool's \<^verbatim>\<open>except\<close> clause; \<^verbatim>\<open>fail_safe_check\<close> has no clause.
\<close>

definition caught :: "tool_call \<Rightarrow> exn \<Rightarrow> bool" where
  "caught c e =
     (if c = Fail_safe_check then False
      else if catches_Exception c then is_Exception e
      else is_PyAutoGUIException e)"

text \<open>
  The steps that a tool takes inside its \<^verbatim>\<open>try\<close> before it builds the envelope, in their
  order and reduced to whether one of them raised: the call into the library; for
  \<^verbatim>\<open>pixel_matches_color\<close> the parsing of the colour and then the call; for
  \<^verbatim>\<open>screenshot\<close> the capture and then either the encoding of the image or the creation
  of the directory and the saving of the file.
\<close>

definition outcome_of :: "('s, 'a) py \<Rightarrow> 's \<Rightarrow> exn option \<times> 's" where
  "outcome_of m s = (case m s of (Inl e, s') \<Rightarrow> (Some e, s') | (Inr v, s') \<Rightarrow> (None, s'))"

fun library_call :: "('w, 'img) backend \<Rightarrow> tool_call \<Rightarrow> 'w gateway \<Rightarrow> exn option \<times> 'w gateway" where
  "library_call bk (Move_mouse x y d) = outcome_of (pyautogui_moveTo bk x y d)"
| "library_call bk (Move_mouse_relative dx dy d) = outcome_of (pyautogui_moveRel bk dx dy d)"
| "library_call bk (Click x y n i b) = outcome_of (pyautogui_click bk x y n i b)"
| "library_call bk (Double_click x y b) = outcome_of (pyautogui_doubleClick bk x y b)"
| "library_call bk (Right_click x y) = outcome_of (pyautogui_rightClick bk x y)"
| "library_call bk (Drag_to x y d b) = outcome_of (pyautogui_dragTo bk x y d b)"
| "library_call bk (Drag_relative dx dy d b) = outcome_of (pyautogui_dragRel bk dx dy d b)"
| "library_call bk (Scroll n x y) = outcome_of (pyautogui_scroll bk n x y)"
| "library_call bk Get_mouse_position = outcome_of (pyautogui_position bk)"
| "library_call bk (Type_text t i) = outcome_of (pyautogui_write bk t i)"
| "library_call bk (Press_key k) = outcome_of (pyautogui_press bk k)"
| "library_call bk (Key_down k) = outcome_of (pyautogui_keyDown bk k)"
| "library_call bk (Key_up k) = outcome_of (pyautogui_keyUp bk k)"
| "library_call bk (Hotkey ks) = outcome_of (pyautogui_hotkey bk ks)"
| "library_call bk (Screenshot f r) =
     (case f of
        None \<Rightarrow> outcome_of (bind_py (pyautogui_screenshot bk r) (image_save_png bk))
      | Some fname \<Rightarrow>
          outcome_of
            (bind_py (pyautogui_screenshot bk r) (\<lambda>img.
               bind_py (os_makedirs bk screenshots_dir) (\<lambda>_.
                 image_save bk img (join screenshots_dir (basename fname))))))"
| "library_call bk (Locate_on_screen p r c) =
     outcome_of (pyautogui_locateOnScreen bk p (if truthy_list r then r else None) c)"
| "library_call bk (Locate_center_on_screen p r c) =
     outcome_of (pyautogui_locateCenterOnScreen bk p (if truthy_list r then r else None) c)"
| "library_call bk (Get_pixel_color x y) = outcome_of (pyautogui_pixel bk x y)"
| "library_call bk (Pixel_matches_color x y c t) =
     outcome_of (bind_py (\<lambda>s. (parse_color c, s)) (\<lambda>rgb. pyautogui_pixelMatchesColor bk x y rgb t))"
| "library_call bk Get_screen_size = outcome_of (pyautogui_size bk)"
| "library_call bk Get_active_window_title = outcome_of (pyautogui_getActiveWindowTitle bk)"
| "library_call bk Get_all_window_titles = outcome_of (pyautogui_getAllTitles bk)"
| "library_call bk (Get_windows_with_title t) = outcome_of (pyautogui_getWindowsWithTitle bk t)"
| "library_call bk (Alert m t) = outcome_of (pyautogui_alert bk m t)"
| "library_call bk (Confirm m t os) =
     outcome_of (pyautogui_confirm bk m t (if truthy_list os then os else None))"
| "library_call bk (Prompt m t d) = outcome_of (pyautogui_prompt bk m t d)"
| "library_call bk (Password m t k) = outcome_of (pyautogui_password bk m t k)"
| "library_call bk (Countdown n) = outcome_of (pyautogui_countdown bk n)"
| "library_call bk (Display_mouse_position n) = outcome_of (pyautogui_displayMousePosition bk n)"
| "library_call bk Fail_safe_check = (\<lambda>s. (None, s))"

text \<open>
  Every envelope that a computation can end with satisfies \<open>P\<close>.
\<close>

definition yields :: "('a \<Rightarrow> bool) \<Rightarrow> ('s, 'a) py \<Rightarrow> bool" where
  "yields P m = (\<forall>s v s'. m s = (Inr v, s') \<longrightarrow> P v)"

text \<open>
  Three backends that differ from the idle one in a single call: image location without
  the optional matching library raises an exception that is not a
  \<^verbatim>\<open>PyAutoGUIException\<close>; the screen capture rejects a region that is not four integers
  with an assertion failure; moving the pointer trips the failsafe, which is a
  \<^verbatim>\<open>PyAutoGUIException\<close>.
\<close>

definition opencv_missing :: exn where
  "opencv_missing =
     Exn OtherException
       ''The confidence keyword argument is only available if OpenCV is installed.''"

definition no_opencv_backend :: "(unit, unit) backend" where
  "no_opencv_backend =
     idle_backend\<lparr>pyautogui_locateOnScreen := (\<lambda>p r c. raise_py opencv_missing)\<rparr>"

definition region_assertion :: exn where
  "region_assertion = Exn OtherException ''region argument must be a tuple of four ints''"

definition four_int_region_backend :: "(unit, unit) backend" where
  "four_int_region_backend =
     idle_backend\<lparr>pyautogui_screenshot :=
       (\<lambda>r. case r of
               None \<Rightarrow> return_py ()
             | Some xs \<Rightarrow> if length xs = 4 then return_py () else raise_py region_assertion)\<rparr>"

definition failsafe_triggered :: exn where
  "failsafe_triggered = Exn PyAutoGUIException ''PyAutoGUI fail-safe triggered''"

definition failsafe_backend :: "(unit, unit) backend" where
  "failsafe_backend =
     idle_backend\<lparr>pyautogui_moveTo := (\<lambda>x y d. raise_py failsafe_triggered)\<rparr>"

text \<open>
  The library reports an image that is not on the screen by raising
  \<^verbatim>\<open>ImageNotFoundException\<close>, a subclass of \<^verbatim>\<open>PyAutoGUIException\<close> whose text is
  empty.
\<close>

definition image_not_found :: exn where
  "image_not_found = Exn PyAutoGUIException []"

definition absent_image_backend :: "(unit, unit) backend" where
  "absent_image_backend =
     idle_backend
       \<lparr>pyautogui_locateOnScreen := (\<lambda>p r c. raise_py image_not_found),
        pyautogui_locateCenterOnScreen := (\<lambda>p r c. raise_py image_not_found)\<rparr>"

text \<open>
  A path whose last component is \<^verbatim>\<open>..\<close> names a directory, and an image cannot be
  saved as a directory: the saving raises. This is what is assumed of a backend where
  a path is to lie within the \<^verbatim>\<open>screenshots\<close> directory.
\<close>

definition save_refuses_parent :: "('w, 'img) backend \<Rightarrow> bool" where
  "save_refuses_parent bk =
     (\<forall>img d s. \<exists>e s'. image_save bk img (d @ ''/..'') s = (Inl e, s'))"

definition unknown_extension :: exn where
  "unknown_extension = Exn ValueError ''unknown file extension: ''"

definition parent_refusing_backend :: "(unit, unit) backend" where
  "parent_refusing_backend =
     idle_backend
       \<lparr>image_save :=
          (\<lambda>img path. if basename path = ''..'' then raise_py unknown_extension else return_py ())\<rparr>"

section \<open>Properties of the tools\<close>

lemmas py_defs = try_except_def bind_py_def return_py_def raise_py_def

lemmas tool_defs =
  move_mouse_def move_mouse_relative_def click_def double_click_def right_click_def drag_to_def
  drag_relative_def scroll_def get_mouse_position_def type_text_def press_key_def key_down_def
  key_up_def hotkey_def screenshot_def locate_on_screen_def locate_center_on_screen_def
  get_pixel_color_def pixel_matches_color_def get_screen_size_def get_active_window_title_def
  get_all_window_titles_def get_windows_with_title_def alert_def confirm_def prompt_def
  password_def countdown_def display_mouse_position_def

lemmas envelope_defs = error_envelope_def locate_error_envelope_def color_error_envelope_def

lemmas key_defs = exactly_one_def success_indication_def has_key_def

subsection \<open>Rules for the try and its body\<close>

lemma has_key_Nil: "has_key k [] = False"
  by (simp add: has_key_def)

lemma has_key_Cons: "has_key k ((k', v) # env) = (k = k' \<or> has_key k env)"
  by (auto simp: has_key_def)

lemmas has_key_simps = has_key_Nil has_key_Cons

lemma yields_return: "P v \<Longrightarrow> yields P (return_py v)"
  by (simp add: yields_def return_py_def)

lemma yields_bind: "(\<And>v. yields P (k v)) \<Longrightarrow> yields P (bind_py m k)"
  unfolding yields_def bind_py_def
  by (auto split: prod.splits sum.splits)

lemma yields_case_prod: "(\<And>x y. yields P (f x y)) \<Longrightarrow> yields P (case_prod f p)"
  by (cases p) simp

lemma yields_case_prod3:
  "(\<And>x y z. yields P (f x y z)) \<Longrightarrow> yields P (case p of (x, y, z) \<Rightarrow> f x y z)"
  by (cases p) simp

lemma yields_case_option:
  "yields P a \<Longrightarrow> (\<And>x. yields P (f x)) \<Longrightarrow> yields P (case_option a f p)"
  by (cases p) simp_all

lemma yields_if: "yields P a \<Longrightarrow> yields P b \<Longrightarrow> yields P (if c then a else b)"
  by simp

lemmas yields_rules =
  yields_bind yields_return yields_case_prod yields_case_prod3 yields_case_option yields_if

lemma try_except_yields:
  assumes "yields P body" and "\<And>e. C e \<Longrightarrow> P (h e)"
    and "fst (try_except C body h s) = Returned env"
  shows "P env"
proof (cases "body s")
  case (Pair r s')
  show ?thesis
  proof (cases r)
    case (Inl e)
    with Pair assms(3) have "C e" and "env = h e"
      by (auto simp: try_except_def split: if_splits)
    with assms(2) show ?thesis by simp
  next
    case (Inr v)
    with Pair assms(3) have "env = v" by (simp add: try_except_def)
    moreover from Pair Inr assms(1) have "P v" by (auto simp: yields_def)
    ultimately show ?thesis by simp
  qed
qed

lemma try_except_raised: "fst (try_except C body h s) = Raised e \<Longrightarrow> \<not> C e"
  by (auto simp: try_except_def split: prod.splits sum.splits if_splits)

lemma try_except_bind_value:
  assumes "m s = (Inr v, s1)"
  shows "try_except C (bind_py m k) h s = try_except C (k v) h s1"
  using assms by (simp add: try_except_def bind_py_def)

lemma try_except_return: "try_except C (return_py env) h s = (Returned env, s)"
  by (simp add: try_except_def return_py_def)

lemma try_except_bind_exn:
  assumes "m s = (Inl e, s1)"
  shows "try_except C (bind_py m k) h s = (if C e then Returned (h e) else Raised e, s1)"
  using assms by (simp add: try_except_def bind_py_def)

lemma outcome_of_Some: "outcome_of m s = (Some e, s') \<Longrightarrow> m s = (Inl e, s')"
  by (auto simp: outcome_of_def split: prod.splits sum.splits)

lemma try_except_bind_raise:
  assumes "outcome_of m s = (Some e, s')" and "C e"
  shows "try_except C (bind_py m k) h s = (Returned (h e), s')"
  using outcome_of_Some [OF assms(1)] assms(2)
  by (simp add: try_except_def bind_py_def)

lemma guarded_error:
  assumes "outcome_of m s = (Some e, s')" and "C e" and "has_key ''error'' (h e)"
  shows "\<exists>env. try_except C (bind_py m k) h s = (Returned env, s') \<and> has_key ''error'' env"
  using try_except_bind_raise [of m s e s' C k h] assms by simp

lemma raise_uncaught:
  assumes "outcome_of m s = (Some e, s')" and "\<not> C e"
  shows "try_except C (bind_py m k) h s = (Raised e, s')"
  using outcome_of_Some [OF assms(1)] assms(2)
  by (simp add: try_except_def bind_py_def)

lemma outcome_of_None: "outcome_of m s = (None, s') \<Longrightarrow> \<exists>v. m s = (Inr v, s')"
  by (auto simp: outcome_of_def split: prod.splits sum.splits)

lemma no_raise_returns:
  assumes "outcome_of m s = (None, s')"
    and "\<And>v t. \<exists>env. k v t = (Inr env, t) \<and> \<not> has_key ''error'' env"
  shows "\<exists>env. try_except C (bind_py m k) h s = (Returned env, s') \<and> \<not> has_key ''error'' env"
proof -
  from outcome_of_None [OF assms(1)] obtain v where v: "m s = (Inr v, s')" by blast
  from assms(2) obtain env where "k v s' = (Inr env, s')" "\<not> has_key ''error'' env" by blast
  with v show ?thesis by (simp add: try_except_def bind_py_def)
qed

lemma bind_py_assoc: "bind_py (bind_py m k1) k2 = bind_py m (\<lambda>v. bind_py (k1 v) k2)"
  by (rule ext) (simp add: bind_py_def split: prod.splits sum.splits)

lemma bind_py_Inr_cases:
  assumes "bind_py m k s = (Inr v, s')"
  obtains u t where "m s = (Inr u, t)" and "k u t = (Inr v, s')"
  using assms by (auto simp: bind_py_def split: prod.splits sum.splits)

lemma error_key_means_raised:
  assumes run: "try_except C (bind_py m k) h s = (Returned env, s')"
    and key: "has_key ''error'' env"
    and ok: "\<And>v t. \<exists>env'. k v t = (Inr env', t) \<and> \<not> has_key ''error'' env'"
  shows "\<exists>e. m s = (Inl e, s')"
proof (cases "m s")
  case (Pair r s1)
  show ?thesis
  proof (cases r)
    case (Inl e)
    with Pair run show ?thesis
      by (simp add: try_except_bind_exn split: if_splits)
  next
    case (Inr v)
    from ok obtain env' where k: "k v s1 = (Inr env', s1)" and nokey: "\<not> has_key ''error'' env'"
      by blast
    from Pair Inr have "try_except C (bind_py m k) h s = try_except C (k v) h s1"
      by (simp add: try_except_bind_value)
    also have "\<dots> = (Returned env', s1)" using k by (simp add: try_except_def)
    finally have "env = env'" using run by simp
    with key nokey show ?thesis by simp
  qed
qed

subsection \<open>The shape of the envelope\<close>

lemma standard_keys:
  "fst (move_mouse bk x y d s) = Returned env \<Longrightarrow> exactly_one env"
  "fst (move_mouse_relative bk x y d s) = Returned env \<Longrightarrow> exactly_one env"
  "fst (click bk ox oy n i b s) = Returned env \<Longrightarrow> exactly_one env"
  "fst (double_click bk ox oy b s) = Returned env \<Longrightarrow> exactly_one env"
  "fst (right_click bk ox oy s) = Returned env \<Longrightarrow> exactly_one env"
  "fst (drag_to bk x y d b s) = Returned env \<Longrightarrow> exactly_one env"
  "fst (drag_relative bk x y d b s) = Returned env \<Longrightarrow> exactly_one env"
  "fst (scroll bk n ox oy s) = Returned env \<Longrightarrow> exactly_one env"
  "fst (type_text bk t i s) = Returned env \<Longrightarrow> exactly_one env"
  "fst (press_key bk k s) = Returned env \<Longrightarrow> exactly_one env"
  "fst (key_down bk k s) = Returned env \<Longrightarrow> exactly_one env"
  "fst (key_up bk k s) = Returned env \<Longrightarrow> exactly_one env"
  "fst (hotkey bk ks s) = Returned env \<Longrightarrow> exactly_one env"
  "fst (screenshot bk f r s) = Returned env \<Longrightarrow> exactly_one env"
  "fst (alert bk m t s) = Returned env \<Longrightarrow> exactly_one env"
  "fst (confirm bk m t os s) = Returned env \<Longrightarrow> exactly_one env"
  "fst (prompt bk m t dt s) = Returned env \<Longrightarrow> exactly_one env"
  "fst (password bk m t mk s) = Returned env \<Longrightarrow> exactly_one env"
  "fst (countdown bk n s) = Returned env \<Longrightarrow> exactly_one env"
  "fst (display_mouse_position bk n s) = Returned env \<Longrightarrow> exactly_one env"
  unfolding move_mouse_def move_mouse_relative_def click_def double_click_def right_click_def
    drag_to_def drag_relative_def scroll_def type_text_def press_key_def key_down_def key_up_def
    hotkey_def screenshot_def alert_def confirm_def prompt_def password_def countdown_def
    display_mouse_position_def Let_def
  by (erule try_except_yields [rotated 2];
      (intro yields_rules)?; simp add: key_defs envelope_defs)+

lemma locate_keys:
  "fst (locate_on_screen bk p r c s) = Returned env \<Longrightarrow>
     exactly_one env = (\<not> has_key ''error'' env)"
  "fst (locate_center_on_screen bk p r c s) = Returned env \<Longrightarrow>
     exactly_one env = (\<not> has_key ''error'' env)"
  unfolding locate_on_screen_def locate_center_on_screen_def
  by (erule try_except_yields [rotated 2];
      (intro yields_rules)?; simp add: key_defs envelope_defs)+

lemma query_keys:
  "fst (get_mouse_position bk s) = Returned env \<Longrightarrow> exactly_one env = has_key ''error'' env"
  "fst (get_pixel_color bk x y s) = Returned env \<Longrightarrow> exactly_one env = has_key ''error'' env"
  "fst (pixel_matches_color bk x y c t s) = Returned env \<Longrightarrow>
     exactly_one env = has_key ''error'' env"
  "fst (get_screen_size bk s) = Returned env \<Longrightarrow> exactly_one env = has_key ''error'' env"
  "fst (get_active_window_title bk s) = Returned env \<Longrightarrow>
     exactly_one env = has_key ''error'' env"
  "fst (get_all_window_titles bk s) = Returned env \<Longrightarrow> exactly_one env = has_key ''error'' env"
  "fst (get_windows_with_title bk frag s) = Returned env \<Longrightarrow>
     exactly_one env = has_key ''error'' env"
  unfolding get_mouse_position_def get_pixel_color_def pixel_matches_color_def get_screen_size_def
    get_active_window_title_def get_all_window_titles_def get_windows_with_title_def Let_def
  by (erule try_except_yields [rotated 2];
      (intro yields_rules)?; simp add: key_defs envelope_defs)+

text \<open>
  Claim C1, as stated: every returned envelope holds exactly one of a success indication
  (\<^verbatim>\<open>message\<close> or a found-result) and an \<^verbatim>\<open>error\<close> field. It fails in two places: the
  \<^verbatim>\<open>except\<close> clause of \<^verbatim>\<open>locate_on_screen\<close> returns \<^verbatim>\<open>found\<close>, \<^verbatim>\<open>error\<close> and
  \<^verbatim>\<open>message\<close> together, and the success envelope of \<^verbatim>\<open>get_mouse_position\<close> holds
  neither a \<^verbatim>\<open>message\<close> nor a \<^verbatim>\<open>found\<close> nor an \<^verbatim>\<open>error\<close> key.
\<close>

theorem envelope_both_and_neither_counterexample:
  "fst (run_tool no_opencv_backend (Locate_on_screen ''button.png'' None (9 / 10)) (startup ())) =
     Returned
       [(''found'', PyBool False), (''error'', PyStr (str_exn opencv_missing)),
        (''message'', PyStr (''Error finding image: '' @ str_exn opencv_missing))]
   \<and> \<not> exactly_one
         [(''found'', PyBool False), (''error'', PyStr (str_exn opencv_missing)),
          (''message'', PyStr (''Error finding image: '' @ str_exn opencv_missing))]
   \<and> fst (run_tool idle_backend Get_mouse_position (startup ())) =
       Returned [(''x'', PyInt 0), (''y'', PyInt 0)]
   \<and> \<not> exactly_one [(''x'', PyInt 0), (''y'', PyInt 0)]"
  by (simp add: locate_on_screen_def get_mouse_position_def no_opencv_backend_def
        idle_backend_def py_defs truthy_list_def is_Exception_def opencv_missing_def
        locate_error_envelope_def key_defs)

text \<open>
  Claim C1, amended. For every tool and every input on which the tool returns an envelope,
  the envelope holds exactly one of a success indication (a \<^verbatim>\<open>message\<close> or \<^verbatim>\<open>found\<close> key)
  and an \<^verbatim>\<open>error\<close> key, with two exceptions. For the two image-location tools this holds
  exactly when the envelope has no \<^verbatim>\<open>error\<close> key: their error envelope holds both. For the
  seven query tools (\<^verbatim>\<open>get_mouse_position\<close>, \<^verbatim>\<open>get_pixel_color\<close>,
  \<^verbatim>\<open>pixel_matches_color\<close>, \<^verbatim>\<open>get_screen_size\<close>, \<^verbatim>\<open>get_active_window_title\<close>,
  \<^verbatim>\<open>get_all_window_titles\<close>, \<^verbatim>\<open>get_windows_with_title\<close>) it holds exactly when the
  envelope has an \<^verbatim>\<open>error\<close> key: their success envelope holds neither.
\<close>

theorem envelope_one_indication:
  assumes "fst (run_tool bk c s) = Returned env"
  shows "exactly_one env =
           (if is_locate c then \<not> has_key ''error'' env
            else if is_query c then has_key ''error'' env
            else True)"
proof (cases c)
  case Fail_safe_check
  with assms show ?thesis
    by (auto simp: fail_safe_check_def key_defs Let_def)
qed (use assms in \<open>simp_all add: standard_keys locate_keys query_keys\<close>)

theorem envelope_one_indication_witness:
  "fst (run_tool failsafe_backend (Move_mouse 10 20 0) (startup ())) =
     Returned [(''error'', PyStr ''PyAutoGUI fail-safe triggered'')]
   \<and> exactly_one [(''error'', PyStr ''PyAutoGUI fail-safe triggered'')]"
proof -
  have r: "fst (run_tool failsafe_backend (Move_mouse 10 20 0) (startup ())) =
     Returned [(''error'', PyStr ''PyAutoGUI fail-safe triggered'')]"
    by (simp add: move_mouse_def failsafe_backend_def idle_backend_def py_defs
          failsafe_triggered_def is_PyAutoGUIException_def error_envelope_def)
  from envelope_one_indication [OF r] r show ?thesis by simp
qed

subsection \<open>Window titles\<close>

text \<open>
  Claim C10. When the backend's active-window title is falsy (\<^verbatim>\<open>None\<close> or the empty
  string), \<^verbatim>\<open>get_active_window_title\<close> returns the literal string \<^verbatim>\<open>"None"\<close> in the
  \<^verbatim>\<open>title\<close> field; the envelope is the same in both cases, so an active window with an
  empty title cannot be told from no active window.
\<close>

theorem get_active_window_title_falsy:
  assumes "pyautogui_getActiveWindowTitle bk s = (Inr title, s')"
    and "title = None \<or> title = Some []"
  shows "get_active_window_title bk s = (Returned [(''title'', PyStr ''None'')], s')"
  using assms by (auto simp: get_active_window_title_def py_defs truthy_str_def)

theorem get_active_window_title_falsy_witness:
  "get_active_window_title
     (idle_backend\<lparr>pyautogui_getActiveWindowTitle := return_py (Some [])\<rparr>) (startup ())
     = (Returned [(''title'', PyStr ''None'')], startup ())
   \<and> get_active_window_title idle_backend (startup ())
     = (Returned [(''title'', PyStr ''None'')], startup ())"
  using
    get_active_window_title_falsy
      [of "idle_backend\<lparr>pyautogui_getActiveWindowTitle := return_py (Some [])\<rparr>"
          "startup ()" "Some []" "startup ()"]
    get_active_window_title_falsy [of idle_backend "startup ()" None "startup ()"]
  by (simp add: idle_backend_def return_py_def)

text \<open>
  Claim C8. When the backend returns no matching windows for a title fragment (the empty
  fragment included), \<^verbatim>\<open>get_windows_with_title\<close> returns \<^verbatim>\<open>{windows: [], count: 0}\<close>
  with no \<^verbatim>\<open>error\<close> field; and in every envelope the tool returns, \<^verbatim>\<open>count\<close> is the
  length of the \<^verbatim>\<open>windows\<close> list.
\<close>

theorem get_windows_with_title_count:
  "(pyautogui_getWindowsWithTitle bk title_fragment s = (Inr [], s') \<longrightarrow>
      get_windows_with_title bk title_fragment s =
        (Returned [(''windows'', PyList []), (''count'', PyInt 0)], s')
      \<and> \<not> has_key ''error'' [(''windows'', PyList []), (''count'', PyInt 0)])
   \<and> (\<forall>env s''. get_windows_with_title bk title_fragment s = (Returned env, s'') \<longrightarrow>
        (\<exists>ws. map_of env ''windows'' = Some (PyList ws)
             \<and> map_of env ''count'' = Some (PyInt (int (length ws)))))"
  by (auto simp: get_windows_with_title_def py_defs has_key_def
           split: prod.splits sum.splits if_splits)

theorem get_windows_with_title_count_witness:
  "get_windows_with_title idle_backend [] (startup ()) =
     (Returned [(''windows'', PyList []), (''count'', PyInt 0)], startup ())"
  using get_windows_with_title_count [of idle_backend "[]" "startup ()" "startup ()"]
  by (simp add: idle_backend_def return_py_def)

subsection \<open>The failsafe query\<close>

text \<open>
  Claim C9. \<^verbatim>\<open>fail_safe_check\<close> is a pure read of the process-wide failsafe flag: for
  every state it returns \<^verbatim>\<open>{enabled: flag}\<close> with the matching message and no \<^verbatim>\<open>error\<close>
  field, it leaves the state unchanged, and its result does not depend on the backend (it
  makes no backend call).
\<close>

theorem fail_safe_check_pure:
  "run_tool bk Fail_safe_check s =
     (Returned
        [(''enabled'', PyBool (FAILSAFE s)),
         (''message'', PyStr (if FAILSAFE s then ''Failsafe enabled'' else ''Failsafe disabled''))],
      s)
   \<and> \<not> has_key ''error''
         [(''enabled'', PyBool (FAILSAFE s)),
          (''message'', PyStr (if FAILSAFE s then ''Failsafe enabled'' else ''Failsafe disabled''))]
   \<and> run_tool bk Fail_safe_check s = run_tool bk' Fail_safe_check s"
  by (simp add: fail_safe_check_def has_key_def Let_def)

theorem fail_safe_check_pure_witness:
  "run_tool idle_backend Fail_safe_check (startup ()) =
     (Returned [(''enabled'', PyBool True), (''message'', PyStr ''Failsafe enabled'')], startup ())"
  using fail_safe_check_pure [of idle_backend "startup ()" idle_backend]
  by (simp add: startup_def)

subsection \<open>Exceptions at the tool boundary\<close>

lemma pixel_matches_color_assoc:
  "pixel_matches_color bk x y color tolerance =
     try_except is_Exception
       (bind_py
          (bind_py (\<lambda>s. (parse_color color, s))
                   (\<lambda>rgb_tuple. pyautogui_pixelMatchesColor bk x y rgb_tuple tolerance))
          (\<lambda>matches.
            return_py
              [(''x'', PyInt x), (''y'', PyInt y), (''color'', PyStr color),
               (''matches'', PyBool matches)]))
       (color_error_envelope color)"
  unfolding pixel_matches_color_def bind_py_assoc ..

lemma screenshot_assoc:
  "screenshot bk None region =
     try_except is_PyAutoGUIException
       (bind_py (bind_py (pyautogui_screenshot bk region) (image_save_png bk))
          (\<lambda>buffered.
              return_py
                [(''message'', PyStr ''Screenshot taken''), (''region'', opt_region region),
                 (''image_base64'', PyStr (b64encode bk buffered))]))
       error_envelope"
  "screenshot bk (Some fname) region =
     try_except is_PyAutoGUIException
       (bind_py
          (bind_py (pyautogui_screenshot bk region) (\<lambda>img.
             bind_py (os_makedirs bk screenshots_dir) (\<lambda>_.
               image_save bk img (join screenshots_dir (basename fname)))))
          (\<lambda>_.
              return_py
                [(''filename'', PyStr (join screenshots_dir (basename fname))),
                 (''region'', opt_region region),
                 (''message'',
                  PyStr (''Screenshot saved to '' @ join screenshots_dir (basename fname)))]))
       error_envelope"
  unfolding screenshot_def bind_py_assoc Let_def by simp_all

lemmas single_call_defs =
  move_mouse_def move_mouse_relative_def click_def double_click_def right_click_def drag_to_def
  drag_relative_def scroll_def get_mouse_position_def type_text_def press_key_def key_down_def
  key_up_def hotkey_def locate_on_screen_def locate_center_on_screen_def
  get_pixel_color_def get_screen_size_def get_active_window_title_def
  get_all_window_titles_def get_windows_with_title_def alert_def confirm_def prompt_def
  password_def countdown_def display_mouse_position_def
  pixel_matches_color_assoc

lemma caught_becomes_error:
  assumes "library_call bk c s = (Some e, s')" and "caught c e"
  shows "\<exists>env. run_tool bk c s = (Returned env, s') \<and> has_key ''error'' env"
proof (cases c)
  case (Locate_on_screen p r cf)
  with assms show ?thesis
    by (simp add: locate_on_screen_def caught_def split: if_splits)
       (rule guarded_error, simp_all add: locate_error_envelope_def has_key_simps)+
next
  case (Locate_center_on_screen p r cf)
  with assms show ?thesis
    by (simp add: locate_center_on_screen_def caught_def split: if_splits)
       (rule guarded_error, simp_all add: locate_error_envelope_def has_key_simps)+
next
  case (Confirm m t os)
  with assms show ?thesis
    by (simp add: confirm_def caught_def split: if_splits)
       (rule guarded_error, simp_all add: error_envelope_def has_key_simps)+
next
  case (Screenshot f r)
  with assms show ?thesis
    by (cases f; simp add: screenshot_assoc caught_def)
       (rule guarded_error, simp_all add: error_envelope_def has_key_simps)+
next
  case Fail_safe_check
  with assms show ?thesis by simp
qed (use assms in \<open>simp_all add: caught_def single_call_defs\<close>,
     (rule guarded_error, simp_all add: envelope_defs has_key_simps)+)

lemma uncaught_leaves:
  assumes "library_call bk c s = (Some e, s')" and "\<not> caught c e"
  shows "run_tool bk c s = (Raised e, s')"
proof (cases c)
  case (Locate_on_screen p r cf)
  with assms show ?thesis
    by (simp add: locate_on_screen_def caught_def split: if_splits)
       (rule raise_uncaught, simp_all)+
next
  case (Locate_center_on_screen p r cf)
  with assms show ?thesis
    by (simp add: locate_center_on_screen_def caught_def split: if_splits)
       (rule raise_uncaught, simp_all)+
next
  case (Confirm m t os)
  with assms show ?thesis
    by (simp add: confirm_def caught_def split: if_splits)
       (rule raise_uncaught, simp_all)+
next
  case (Screenshot f r)
  with assms show ?thesis
    by (cases f; simp add: screenshot_assoc caught_def)
       (rule raise_uncaught, simp_all)+
next
  case Fail_safe_check
  with assms show ?thesis by simp
qed (use assms in \<open>simp_all add: caught_def single_call_defs\<close>,
     (rule raise_uncaught, simp_all)+)

lemma no_raise_no_error:
  assumes "library_call bk c s = (None, s')"
  shows "\<exists>env. run_tool bk c s = (Returned env, s') \<and> \<not> has_key ''error'' env"
proof (cases c)
  case (Locate_on_screen p r cf)
  with assms show ?thesis
    by (simp add: locate_on_screen_def split: if_splits)
       (rule no_raise_returns, simp,
        simp add: return_py_def has_key_simps split: option.split prod.split)+
next
  case (Locate_center_on_screen p r cf)
  with assms show ?thesis
    by (simp add: locate_center_on_screen_def split: if_splits)
       (rule no_raise_returns, simp,
        simp add: return_py_def has_key_simps split: option.split prod.split)+
next
  case (Confirm m t os)
  with assms show ?thesis
    by (simp add: confirm_def split: if_splits)
       (rule no_raise_returns, simp, simp add: return_py_def has_key_simps)+
next
  case (Screenshot f r)
  with assms show ?thesis
    by (cases f; simp add: screenshot_assoc)
       (rule no_raise_returns, simp, simp add: return_py_def has_key_simps)+
next
  case Fail_safe_check
  with assms show ?thesis by (auto simp: fail_safe_check_def Let_def has_key_simps)
qed (use assms in \<open>simp_all add: single_call_defs\<close>,
     (rule no_raise_returns, simp,
      simp add: return_py_def has_key_simps split: option.split prod.split)+)

lemma raised_not_caught:
  assumes "fst (run_tool bk c s) = Raised e"
  shows "\<not> caught c e"
proof (cases c)
  case Fail_safe_check
  with assms show ?thesis by (simp add: fail_safe_check_def Let_def)
qed (use assms in \<open>auto simp: caught_def tool_defs dest: try_except_raised\<close>)

text \<open>
  Claim C5, as stated: every backend exception and every malformed input, a malformed
  region passed to \<^verbatim>\<open>screenshot\<close> included, is caught at the tool boundary. It fails:
  \<^verbatim>\<open>screenshot\<close> catches \<^verbatim>\<open>pyautogui.PyAutoGUIException\<close> only, so when the screen
  capture rejects the three-element region with an exception of another class, the
  exception leaves the tool.
\<close>

theorem screenshot_region_exception_counterexample:
  "fst (run_tool four_int_region_backend (Screenshot None (Some [0, 0, 100])) (startup ())) =
     Raised (Exn OtherException ''region argument must be a tuple of four ints'')"
  by (simp add: screenshot_def four_int_region_backend_def idle_backend_def py_defs
        region_assertion_def is_PyAutoGUIException_def)

text \<open>
  Claim C5, amended. An exception that leaves a tool is never of a class that the tool's
  \<^verbatim>\<open>except\<close> clause names: never a \<^verbatim>\<open>PyAutoGUIException\<close>, and for \<^verbatim>\<open>locate_on_screen\<close>,
  \<^verbatim>\<open>locate_center_on_screen\<close> and \<^verbatim>\<open>pixel_matches_color\<close> never any \<^verbatim>\<open>Exception\<close>
  (which covers the \<^verbatim>\<open>ValueError\<close> of a malformed colour string). When a step of a tool
  raises an exception of such a class, the tool returns an envelope with an \<^verbatim>\<open>error\<close>
  field. When a step raises an exception of any other class, that exception leaves the
  tool: in the 26 tools whose clause names \<^verbatim>\<open>PyAutoGUIException\<close> this is every
  exception that is not one, in the three others every exception that is not an
  \<^verbatim>\<open>Exception\<close>. When no step raises, the tool returns an envelope without an \<^verbatim>\<open>error\<close>
  field. \<^verbatim>\<open>fail_safe_check\<close> has no clause and raises nothing.
\<close>

theorem caught_exceptions_become_error_envelopes:
  "(\<forall>e. fst (run_tool bk c s) = Raised e \<longrightarrow> \<not> caught c e)
   \<and> (\<forall>e s'. library_call bk c s = (Some e, s') \<and> caught c e \<longrightarrow>
        (\<exists>env. run_tool bk c s = (Returned env, s') \<and> has_key ''error'' env))
   \<and> (\<forall>e s'. library_call bk c s = (Some e, s') \<and> \<not> caught c e \<longrightarrow>
        run_tool bk c s = (Raised e, s'))
   \<and> (\<forall>s'. library_call bk c s = (None, s') \<longrightarrow>
        (\<exists>env. run_tool bk c s = (Returned env, s') \<and> \<not> has_key ''error'' env))
   \<and> (\<forall>e. caught c e =
          (c \<noteq> Fail_safe_check \<and>
           (is_PyAutoGUIException e \<or> (catches_Exception c \<and> is_Exception e))))
   \<and> (\<forall>e. is_PyAutoGUIException e \<and> c \<noteq> Fail_safe_check \<longrightarrow> caught c e)
   \<and> (\<forall>e. fst (run_tool bk Fail_safe_check s) \<noteq> Raised e)"
proof (intro conjI allI impI)
  fix e assume "fst (run_tool bk c s) = Raised e"
  then show "\<not> caught c e" by (rule raised_not_caught)
next
  fix e s' assume "library_call bk c s = (Some e, s') \<and> caught c e"
  then show "\<exists>env. run_tool bk c s = (Returned env, s') \<and> has_key ''error'' env"
    using caught_becomes_error by blast
next
  fix e s' assume "library_call bk c s = (Some e, s') \<and> \<not> caught c e"
  then show "run_tool bk c s = (Raised e, s')"
    using uncaught_leaves by blast
next
  fix s' assume "library_call bk c s = (None, s')"
  then show "\<exists>env. run_tool bk c s = (Returned env, s') \<and> \<not> has_key ''error'' env"
    by (rule no_raise_no_error)
next
  fix e show "caught c e =
          (c \<noteq> Fail_safe_check \<and>
           (is_PyAutoGUIException e \<or> (catches_Exception c \<and> is_Exception e)))"
    by (auto simp: caught_def is_PyAutoGUIException_def is_Exception_def)
next
  fix e assume "is_PyAutoGUIException e \<and> c \<noteq> Fail_safe_check"
  then show "caught c e"
    by (simp add: caught_def is_PyAutoGUIException_def is_Exception_def)
next
  fix e show "fst (run_tool bk Fail_safe_check s) \<noteq> Raised e"
    by (simp add: fail_safe_check_def Let_def)
qed

theorem caught_exceptions_become_error_envelopes_witness:
  "(\<exists>env. run_tool failsafe_backend (Move_mouse 0 0 0) (startup ()) = (Returned env, startup ())
          \<and> has_key ''error'' env)
   \<and> run_tool four_int_region_backend (Screenshot (Some ''shot.png'') (Some [0, 0, 100]))
        (startup ()) = (Raised region_assertion, startup ())"
proof -
  have 1: "library_call failsafe_backend (Move_mouse 0 0 0) (startup ())
          = (Some failsafe_triggered, startup ())"
    by (simp add: failsafe_backend_def idle_backend_def outcome_of_def raise_py_def)
  have 2: "caught (Move_mouse 0 0 0) failsafe_triggered"
    by (simp add: caught_def failsafe_triggered_def is_PyAutoGUIException_def)
  have 3: "library_call four_int_region_backend (Screenshot (Some ''shot.png'') (Some [0, 0, 100]))
             (startup ()) = (Some region_assertion, startup ())"
    by (simp add: four_int_region_backend_def idle_backend_def outcome_of_def raise_py_def
          bind_py_def)
  have 4: "\<not> caught (Screenshot (Some ''shot.png'') (Some [0, 0, 100])) region_assertion"
    by (simp add: caught_def region_assertion_def is_PyAutoGUIException_def)
  from caught_exceptions_become_error_envelopes
            [of failsafe_backend "Move_mouse 0 0 0" "startup ()"] 1 2
  have a: "\<exists>env. run_tool failsafe_backend (Move_mouse 0 0 0) (startup ()) = (Returned env, startup ())
          \<and> has_key ''error'' env" by blast
  from caught_exceptions_become_error_envelopes
            [of four_int_region_backend "Screenshot (Some ''shot.png'') (Some [0, 0, 100])"
                "startup ()"] 3 4
  have b: "run_tool four_int_region_backend (Screenshot (Some ''shot.png'') (Some [0, 0, 100]))
        (startup ()) = (Raised region_assertion, startup ())" by blast
  from a b show ?thesis by blast
qed

subsection \<open>Image location\<close>

lemma locate_on_screen_absent:
  assumes "pyautogui_locateOnScreen bk image_path (if truthy_list region then region else None)
             confidence s = (Inr None, s')"
  shows "locate_on_screen bk image_path region confidence s =
           (Returned [(''found'', PyBool False), (''message'', PyStr ''Image not found on screen'')], s')"
proof -
  have "(if truthy_list region then pyautogui_locateOnScreen bk image_path region confidence
         else pyautogui_locateOnScreen bk image_path None confidence) s = (Inr None, s')"
    using assms by (simp split: if_splits)
  then show ?thesis
    unfolding locate_on_screen_def
    by (simp add: try_except_bind_value try_except_return)
qed

lemma locate_center_on_screen_absent:
  assumes "pyautogui_locateCenterOnScreen bk image_path (if truthy_list region then region else None)
             confidence s = (Inr None, s')"
  shows "locate_center_on_screen bk image_path region confidence s =
           (Returned [(''found'', PyBool False), (''message'', PyStr ''Image not found on screen'')], s')"
proof -
  have "(if truthy_list region then pyautogui_locateCenterOnScreen bk image_path region confidence
         else pyautogui_locateCenterOnScreen bk image_path None confidence) s = (Inr None, s')"
    using assms by (simp split: if_splits)
  then show ?thesis
    unfolding locate_center_on_screen_def
    by (simp add: try_except_bind_value try_except_return)
qed

lemma locate_on_screen_error_raised:
  assumes "locate_on_screen bk image_path region confidence s = (Returned env, s')"
    and "has_key ''error'' env"
  shows "\<exists>e. pyautogui_locateOnScreen bk image_path (if truthy_list region then region else None)
               confidence s = (Inl e, s')"
proof -
  have "\<exists>e. (if truthy_list region then pyautogui_locateOnScreen bk image_path region confidence
         else pyautogui_locateOnScreen bk image_path None confidence) s = (Inl e, s')"
  proof (rule error_key_means_raised [OF assms [unfolded locate_on_screen_def]])
    fix v :: "box option" and t :: "'a gateway"
    show "\<exists>env'. (case v of
              Some p \<Rightarrow>
                 return_py
                   [(''found'', PyBool True), (''left'', PyInt (box_left p)),
                    (''top'', PyInt (box_top p)), (''width'', PyInt (box_width p)),
                    (''height'', PyInt (box_height p)),
                    (''message'',
                     PyStr (''Found image at ('' @ str_int (box_left p) @ '', ''
                            @ str_int (box_top p) @ '')''))]
             | None \<Rightarrow>
                 return_py
                   [(''found'', PyBool False), (''message'', PyStr ''Image not found on screen'')]) t
            = (Inr env', t) \<and> \<not> has_key ''error'' env'"
      by (cases v) (simp_all add: return_py_def has_key_simps)
  qed
  then show ?thesis by (simp split: if_splits)
qed

lemma locate_center_on_screen_error_raised:
  assumes "locate_center_on_screen bk image_path region confidence s = (Returned env, s')"
    and "has_key ''error'' env"
  shows "\<exists>e. pyautogui_locateCenterOnScreen bk image_path
               (if truthy_list region then region else None) confidence s = (Inl e, s')"
proof -
  have "\<exists>e. (if truthy_list region then pyautogui_locateCenterOnScreen bk image_path region confidence
         else pyautogui_locateCenterOnScreen bk image_path None confidence) s = (Inl e, s')"
  proof (rule error_key_means_raised [OF assms [unfolded locate_center_on_screen_def]])
    fix v :: "(int \<times> int) option" and t :: "'a gateway"
    show "\<exists>env'. (case v of
               Some (px, py) \<Rightarrow>
                 return_py
                   [(''found'', PyBool True), (''x'', PyInt px), (''y'', PyInt py),
                    (''message'',
                     PyStr (''Found image center at ('' @ str_int px @ '', '' @ str_int py @ '')''))]
             | None \<Rightarrow>
                 return_py
                   [(''found'', PyBool False), (''message'', PyStr ''Image not found on screen'')]) t
            = (Inr env', t) \<and> \<not> has_key ''error'' env'"
      by (cases v) (auto simp: return_py_def has_key_simps)
  qed
  then show ?thesis by (simp split: if_splits)
qed

text \<open>
  The branch that the two tools have for an absent image: when the location call returns
  \<^verbatim>\<open>None\<close> they return \<^verbatim>\<open>found: false\<close> with a message and no \<^verbatim>\<open>error\<close> key, and an
  envelope of theirs has an \<^verbatim>\<open>error\<close> key only when the call raised.
\<close>

lemma locate_none_branch:
  "(pyautogui_locateOnScreen bk image_path (if truthy_list region then region else None) confidence s
       = (Inr None, s') \<longrightarrow>
      locate_on_screen bk image_path region confidence s =
        (Returned [(''found'', PyBool False), (''message'', PyStr ''Image not found on screen'')], s'))
   \<and> (pyautogui_locateCenterOnScreen bk image_path (if truthy_list region then region else None)
        confidence s = (Inr None, s') \<longrightarrow>
      locate_center_on_screen bk image_path region confidence s =
        (Returned [(''found'', PyBool False), (''message'', PyStr ''Image not found on screen'')], s'))
   \<and> \<not> has_key ''error'' [(''found'', PyBool False), (''message'', PyStr ''Image not found on screen'')]
   \<and> (\<forall>env s''. locate_on_screen bk image_path region confidence s = (Returned env, s'')
          \<and> has_key ''error'' env \<longrightarrow>
        (\<exists>e. pyautogui_locateOnScreen bk image_path (if truthy_list region then region else None)
               confidence s = (Inl e, s'')))
   \<and> (\<forall>env s''. locate_center_on_screen bk image_path region confidence s = (Returned env, s'')
          \<and> has_key ''error'' env \<longrightarrow>
        (\<exists>e. pyautogui_locateCenterOnScreen bk image_path
               (if truthy_list region then region else None) confidence s = (Inl e, s'')))"
proof (intro conjI allI impI)
  show "\<not> has_key ''error'' [(''found'', PyBool False), (''message'', PyStr ''Image not found on screen'')]"
    by (simp add: has_key_simps)
qed (blast intro: locate_on_screen_absent locate_center_on_screen_absent
       locate_on_screen_error_raised locate_center_on_screen_error_raised)+

text \<open>
  Claim C4: when the backend reports the image absent, \<^verbatim>\<open>locate_on_screen\<close> and
  \<^verbatim>\<open>locate_center_on_screen\<close> return \<^verbatim>\<open>found: false\<close> and no \<^verbatim>\<open>error\<close> key. The code
  does not do this. The library reports an absent image by raising
  \<^verbatim>\<open>ImageNotFoundException\<close>, so the branch above is not reached: the clause
  \<^verbatim>\<open>except Exception\<close> catches the report and both tools return \<^verbatim>\<open>found: false\<close> together
  with an \<^verbatim>\<open>error\<close> key, whose text is empty, and the message of a failure.
\<close>

theorem locate_absent_image_is_reported_as_error:
  "run_tool absent_image_backend (Locate_on_screen ''button.png'' None (9 / 10)) (startup ()) =
     (Returned
        [(''found'', PyBool False), (''error'', PyStr []),
         (''message'', PyStr ''Error finding image: '')], startup ())
   \<and> run_tool absent_image_backend (Locate_center_on_screen ''button.png'' None (9 / 10))
        (startup ()) =
     (Returned
        [(''found'', PyBool False), (''error'', PyStr []),
         (''message'', PyStr ''Error finding image: '')], startup ())
   \<and> has_key ''error''
        [(''found'', PyBool False), (''error'', PyStr []),
         (''message'', PyStr ''Error finding image: '')]"
  by (simp add: locate_on_screen_def locate_center_on_screen_def absent_image_backend_def
        idle_backend_def py_defs truthy_list_def is_Exception_def image_not_found_def
        locate_error_envelope_def has_key_simps)

subsection \<open>The password dialog\<close>

lemma password_returned:
  assumes "pyautogui_password bk message title mask_str s = (Inr entered, s')"
  shows "password bk message title mask_str s =
          (Returned
             [(''message'', PyStr message), (''title'', PyStr title), (''mask'', PyStr mask_str),
              (''result'', (if truthy_str entered then PyStr ''[REDACTED]'' else PyNone))], s')"
  unfolding password_def
  using assms by (simp add: try_except_bind_value try_except_return)

text \<open>
  Claim C3. Two runs of \<^verbatim>\<open>password\<close> with the same arguments, in which the user entered
  two secrets that are both not empty, return the same envelope. Whatever the dialog
  returned, the envelope echoes the three arguments and its \<^verbatim>\<open>result\<close> field is the
  marker \<^verbatim>\<open>[REDACTED]\<close> when something was entered and \<^verbatim>\<open>None\<close> otherwise; so every
  value in the envelope is one of the caller's arguments, the marker or \<^verbatim>\<open>None\<close>, and
  the text entered is not a source of any field.
\<close>

theorem password_secret_redacted:
  "(pyautogui_password bk1 message title mask_str s1 = (Inr (Some secret1), s1') \<and> secret1 \<noteq> [] \<and>
    pyautogui_password bk2 message title mask_str s2 = (Inr (Some secret2), s2') \<and> secret2 \<noteq> [] \<longrightarrow>
      fst (password bk1 message title mask_str s1) = fst (password bk2 message title mask_str s2))
   \<and> (pyautogui_password bk1 message title mask_str s1 = (Inr entered, s1') \<longrightarrow>
        password bk1 message title mask_str s1 =
          (Returned
             [(''message'', PyStr message), (''title'', PyStr title), (''mask'', PyStr mask_str),
              (''result'', (if truthy_str entered then PyStr ''[REDACTED]'' else PyNone))], s1'))
   \<and> (pyautogui_password bk1 message title mask_str s1 = (Inr entered, s1') \<longrightarrow>
        (\<exists>env. fst (password bk1 message title mask_str s1) = Returned env \<and>
           snd ` set env \<subseteq>
             {PyStr message, PyStr title, PyStr mask_str, PyStr ''[REDACTED]'', PyNone}))"
proof (intro conjI impI)
  assume a: "pyautogui_password bk1 message title mask_str s1 = (Inr (Some secret1), s1') \<and> secret1 \<noteq> [] \<and>
    pyautogui_password bk2 message title mask_str s2 = (Inr (Some secret2), s2') \<and> secret2 \<noteq> []"
  then show "fst (password bk1 message title mask_str s1) = fst (password bk2 message title mask_str s2)"
    using password_returned [of bk1 message title mask_str s1 "Some secret1" s1']
      password_returned [of bk2 message title mask_str s2 "Some secret2" s2']
    by (simp add: truthy_str_def)
next
  assume "pyautogui_password bk1 message title mask_str s1 = (Inr entered, s1')"
  then show "password bk1 message title mask_str s1 =
          (Returned
             [(''message'', PyStr message), (''title'', PyStr title), (''mask'', PyStr mask_str),
              (''result'', (if truthy_str entered then PyStr ''[REDACTED]'' else PyNone))], s1')"
    by (rule password_returned)
next
  assume "pyautogui_password bk1 message title mask_str s1 = (Inr entered, s1')"
  from password_returned [OF this]
  show "\<exists>env. fst (password bk1 message title mask_str s1) = Returned env \<and>
           snd ` set env \<subseteq>
             {PyStr message, PyStr title, PyStr mask_str, PyStr ''[REDACTED]'', PyNone}"
    by simp
qed

theorem password_secret_redacted_witness:
  "fst (password (idle_backend\<lparr>pyautogui_password := (\<lambda>m t k. return_py (Some ''hunter2''))\<rparr>)
         ''Enter the passphrase'' ''Password'' ''*'' (startup ()))
   = fst (password (idle_backend\<lparr>pyautogui_password := (\<lambda>m t k. return_py (Some ''tr0ub4dor''))\<rparr>)
         ''Enter the passphrase'' ''Password'' ''*'' (startup ()))"
proof -
  let ?bk1 = "idle_backend\<lparr>pyautogui_password := (\<lambda>m t k. return_py (Some ''hunter2''))\<rparr>"
  let ?bk2 = "idle_backend\<lparr>pyautogui_password := (\<lambda>m t k. return_py (Some ''tr0ub4dor''))\<rparr>"
  have h: "pyautogui_password ?bk1 ''Enter the passphrase'' ''Password'' ''*'' (startup ())
             = (Inr (Some ''hunter2''), startup ()) \<and> ''hunter2'' \<noteq> [] \<and>
           pyautogui_password ?bk2 ''Enter the passphrase'' ''Password'' ''*'' (startup ())
             = (Inr (Some ''tr0ub4dor''), startup ()) \<and> ''tr0ub4dor'' \<noteq> []"
    by (simp add: idle_backend_def return_py_def)
  from password_secret_redacted
         [of ?bk1 "''Enter the passphrase''" "''Password''" "''*''" "startup ()" "''hunter2''"
             "startup ()" ?bk2 "startup ()" "''tr0ub4dor''" "startup ()", THEN conjunct1] h
  show ?thesis by blast
qed

subsection \<open>The path of a saved screenshot\<close>

lemma basename_no_slash: "CHR ''/'' \<notin> set (basename p)"
  by (auto simp: basename_def dest: set_takeWhileD)

lemma join_screenshots:
  assumes "CHR ''/'' \<notin> set b"
  shows "join screenshots_dir b = ''screenshots/'' @ b"
  using assms by (cases b) (auto simp: join_def startswith_def endswith_def screenshots_dir_def)

lemma split_slash_no_slash: "CHR ''/'' \<notin> set b \<Longrightarrow> split_slash b = [b]"
  by (induction b) auto

lemma split_slash_append:
  "CHR ''/'' \<notin> set a \<Longrightarrow> split_slash (a @ CHR ''/'' # b) = a # split_slash b"
  by (induction a) auto

lemma within_screenshots:
  assumes "CHR ''/'' \<notin> set b" and "b \<noteq> ''..''"
  shows "within_dir screenshots_dir (''screenshots/'' @ b)"
proof -
  have d: "split_slash screenshots_dir = [''screenshots'']"
    by (simp add: screenshots_dir_def)
  have "split_slash (''screenshots'' @ CHR ''/'' # b) = ''screenshots'' # split_slash b"
    by (rule split_slash_append) simp
  then have p: "split_slash (''screenshots/'' @ b) = [''screenshots'', b]"
    using assms(1) by (simp add: split_slash_no_slash)
  show ?thesis
    unfolding within_dir_def d p using assms(2)
    by (simp add: startswith_def)
qed

lemma basename_append:
  assumes "CHR ''/'' \<notin> set b"
  shows "basename (d @ CHR ''/'' # b) = b"
proof -
  have "takeWhile (\<lambda>c. c \<noteq> CHR ''/'') (rev b @ CHR ''/'' # rev d) = rev b"
    using assms by (auto simp: takeWhile_tail takeWhile_eq_all_conv)
  then show ?thesis by (simp add: basename_def)
qed

lemma screenshot_filename_field:
  assumes "fst (screenshot bk (Some filename) region s) = Returned env"
  shows "map_of env ''filename'' = Some v \<longrightarrow> v = PyStr (join screenshots_dir (basename filename))"
  using assms unfolding screenshot_def Let_def option.case
  by (erule_tac try_except_yields [rotated 2]; (intro yields_rules)?; simp add: error_envelope_def)

lemma screenshot_file_was_saved:
  assumes run: "screenshot bk (Some filename) region s = (Returned env, s')"
    and field: "map_of env ''filename'' = Some v"
  shows "\<exists>img s1 s2. image_save bk img (join screenshots_dir (basename filename)) s1 = (Inr (), s2)"
proof -
  let ?calls = "bind_py (pyautogui_screenshot bk region) (\<lambda>img.
             bind_py (os_makedirs bk screenshots_dir) (\<lambda>_.
               image_save bk img (join screenshots_dir (basename filename))))"
  obtain r t where c: "?calls s = (r, t)" by (cases "?calls s")
  show ?thesis
  proof (cases r)
    case (Inl e)
    with c run have "env = error_envelope e"
      unfolding screenshot_assoc
      by (simp add: try_except_bind_exn split: if_splits)
    with field show ?thesis by (simp add: error_envelope_def)
  next
    case (Inr u)
    with c have "?calls s = (Inr u, t)" by simp
    then obtain img t1 where
      "bind_py (os_makedirs bk screenshots_dir) (\<lambda>_.
               image_save bk img (join screenshots_dir (basename filename))) t1 = (Inr u, t)"
      by (rule bind_py_Inr_cases)
    then obtain t2 where
      "image_save bk img (join screenshots_dir (basename filename)) t2 = (Inr u, t)"
      by (rule bind_py_Inr_cases)
    then show ?thesis by auto
  qed
qed

lemma screenshot_only_saves_at_path:
  assumes "\<And>img. f img (join screenshots_dir (basename filename))
                  = image_save bk img (join screenshots_dir (basename filename))"
  shows "screenshot (bk\<lparr>image_save := f\<rparr>) (Some filename) region s
           = screenshot bk (Some filename) region s"
  unfolding screenshot_def Let_def using assms by simp

lemma parent_refusing_backend_refuses: "save_refuses_parent parent_refusing_backend"
  unfolding save_refuses_parent_def
proof (intro allI)
  fix img :: unit and d :: string and s :: "unit gateway"
  have "basename (d @ ''/..'') = ''..''"
    using basename_append [of "''..''" d] by simp
  then show "\<exists>e s'. image_save parent_refusing_backend img (d @ ''/..'') s = (Inl e, s')"
    by (simp add: parent_refusing_backend_def raise_py_def)
qed

text \<open>
  Claim C2. For every filename, path-traversal strings included, the path that
  \<^verbatim>\<open>screenshot\<close> returns in the \<^verbatim>\<open>filename\<close> field is the \<^verbatim>\<open>screenshots\<close> directory
  joined with the base name of the filename: \<^verbatim>\<open>screenshots/\<close> followed by the base name,
  which holds no slash. It is not the raw path: the tool saves the image under that path
  and consults the saving under no other path, and two filenames with the same base name
  give the same result. And it is never a path outside the directory: the one base name
  that would lead out is \<^verbatim>\<open>..\<close>, and with a backend that refuses to save an image under
  a path ending in \<^verbatim>\<open>/..\<close> (a directory) no \<^verbatim>\<open>filename\<close> field is returned for it.
\<close>

theorem screenshot_saved_path:
  assumes "screenshot bk (Some filename) region s = (Returned env, s')"
    and "map_of env ''filename'' = Some v"
  shows "v = PyStr (join screenshots_dir (basename filename))
       \<and> join screenshots_dir (basename filename) = ''screenshots/'' @ basename filename
       \<and> CHR ''/'' \<notin> set (basename filename)
       \<and> (save_refuses_parent bk \<longrightarrow>
            basename filename \<noteq> ''..''
            \<and> within_dir screenshots_dir (join screenshots_dir (basename filename)))
       \<and> (\<forall>f. (\<forall>img. f img (''screenshots/'' @ basename filename)
                       = image_save bk img (''screenshots/'' @ basename filename)) \<longrightarrow>
              screenshot (bk\<lparr>image_save := f\<rparr>) (Some filename) region s
                = screenshot bk (Some filename) region s)
       \<and> (\<forall>other. basename other = basename filename \<longrightarrow>
              screenshot bk (Some other) region s = screenshot bk (Some filename) region s)"
proof -
  have "fst (screenshot bk (Some filename) region s) = Returned env" using assms(1) by simp
  from screenshot_filename_field [OF this] assms(2)
  have 1: "v = PyStr (join screenshots_dir (basename filename))" by simp
  have j: "join screenshots_dir (basename filename) = ''screenshots/'' @ basename filename"
    by (rule join_screenshots) (rule basename_no_slash)
  have 4: "save_refuses_parent bk \<longrightarrow>
            basename filename \<noteq> ''..''
            \<and> within_dir screenshots_dir (join screenshots_dir (basename filename))"
  proof
    assume refuses: "save_refuses_parent bk"
    from screenshot_file_was_saved [OF assms] obtain img s1 s2 where
      saved: "image_save bk img (''screenshots/'' @ basename filename) s1 = (Inr (), s2)"
      unfolding j by blast
    have "basename filename \<noteq> ''..''"
    proof
      assume "basename filename = ''..''"
      with saved have "image_save bk img (''screenshots'' @ ''/..'') s1 = (Inr (), s2)" by simp
      moreover from refuses obtain e t where
        "image_save bk img (''screenshots'' @ ''/..'') s1 = (Inl e, t)"
        unfolding save_refuses_parent_def by blast
      ultimately show False by simp
    qed
    then show "basename filename \<noteq> ''..''
            \<and> within_dir screenshots_dir (join screenshots_dir (basename filename))"
      unfolding j using within_screenshots [OF basename_no_slash] by blast
  qed
  have 5: "\<forall>f. (\<forall>img. f img (''screenshots/'' @ basename filename)
                       = image_save bk img (''screenshots/'' @ basename filename)) \<longrightarrow>
              screenshot (bk\<lparr>image_save := f\<rparr>) (Some filename) region s
                = screenshot bk (Some filename) region s"
    using screenshot_only_saves_at_path [of _ filename bk region s] unfolding j by blast
  have 6: "\<forall>other. basename other = basename filename \<longrightarrow>
              screenshot bk (Some other) region s = screenshot bk (Some filename) region s"
    by (simp add: screenshot_def)
  from 1 j 4 5 6 basename_no_slash [of filename] show ?thesis by blast
qed

theorem screenshot_saved_path_witness:
  "fst (screenshot parent_refusing_backend (Some ''../../etc/passwd'') None (startup ())) =
     Returned [(''filename'', PyStr ''screenshots/passwd''), (''region'', PyNone),
               (''message'', PyStr ''Screenshot saved to screenshots/passwd'')]
   \<and> within_dir screenshots_dir ''screenshots/passwd''"
proof -
  have b: "basename ''../../etc/passwd'' = ''passwd''" by (simp add: basename_def)
  have r: "screenshot parent_refusing_backend (Some ''../../etc/passwd'') None (startup ()) =
     (Returned [(''filename'', PyStr ''screenshots/passwd''), (''region'', PyNone),
               (''message'', PyStr ''Screenshot saved to screenshots/passwd'')], startup ())"
    by (simp add: screenshot_def parent_refusing_backend_def idle_backend_def py_defs b
          basename_def join_def startswith_def endswith_def screenshots_dir_def opt_region_def
          Let_def)
  from screenshot_saved_path [OF r, of "PyStr ''screenshots/passwd''"] b
    parent_refusing_backend_refuses
  show ?thesis using r by (simp add: join_def startswith_def endswith_def screenshots_dir_def)
qed

text \<open>With such a backend the filename \<^verbatim>\<open>screenshots/..\<close> ends in the exception of the saving.\<close>

lemma screenshot_parent_is_refused:
  "screenshot parent_refusing_backend (Some ''screenshots/..'') None (startup ())
     = (Raised unknown_extension, startup ())"
  by (simp add: screenshot_def parent_refusing_backend_def idle_backend_def py_defs
        basename_def join_def startswith_def endswith_def screenshots_dir_def Let_def
        unknown_extension_def is_PyAutoGUIException_def)

subsection \<open>Colour strings\<close>

lemma ints_of_fails:
  "\<not> list_all (\<lambda>c. py_int base c \<noteq> None) cs \<Longrightarrow> \<exists>e. ints_of base cs = Inl e \<and> cls e = ValueError"
  by (induction cs) (auto simp: int_of_str_def invalid_literal_def split: option.splits sum.splits)

lemma paren_not_hash: "startswith color (CHR ''('') \<Longrightarrow> \<not> startswith color (CHR ''#'')"
  by (cases color) (auto simp: startswith_def)

lemma malformed_parse:
  assumes "malformed_color color"
  shows "\<exists>e. parse_color color = Inl e \<and> cls e = ValueError"
proof -
  consider (neither) "\<not> startswith color (CHR ''#'')" "\<not> startswith color (CHR ''('')"
    | (hex) "startswith color (CHR ''#'')" "length (lstrip_chars ''#'' color) \<noteq> 6"
    | (count) "startswith color (CHR ''('')" "length (split_comma (strip_chars ''() '' color)) \<noteq> 3"
    | (ints) "startswith color (CHR ''('')" "length (split_comma (strip_chars ''() '' color)) = 3"
        "\<not> list_all (\<lambda>c. py_int 10 (strip c) \<noteq> None) (split_comma (strip_chars ''() '' color))"
    using assms unfolding malformed_color_def by blast
  then show ?thesis
  proof cases
    case neither
    then show ?thesis by (simp add: parse_color_def)
  next
    case hex
    then show ?thesis by (simp add: parse_color_def Let_def)
  next
    case count
    then show ?thesis by (simp add: parse_color_def Let_def paren_not_hash)
  next
    case ints
    from ints(3) have "\<not> list_all (\<lambda>c. py_int 10 c \<noteq> None)
                         (map strip (split_comma (strip_chars ''() '' color)))"
      by (simp add: list.pred_map comp_def)
    from ints_of_fails [OF this] ints(1,2) show ?thesis
      by (simp add: parse_color_def Let_def paren_not_hash)
  qed
qed

lemma pixel_matches_color_parse_error:
  assumes "parse_color color = Inl e" and "is_Exception e"
  shows "pixel_matches_color bk x y color tolerance s = (Returned (color_error_envelope color e), s)"
  unfolding pixel_matches_color_def
  using assms by (simp add: try_except_def bind_py_def)

text \<open>
  Claim C6. For every colour string that is malformed (it starts with neither \<^verbatim>\<open>#\<close> nor
  \<^verbatim>\<open>(\<close>, or its hexadecimal body is not six characters long, or its parenthesised form
  does not hold exactly three integers between commas), \<^verbatim>\<open>pixel_matches_color\<close> returns
  an envelope whose only field is \<^verbatim>\<open>error\<close>, with the text of the \<^verbatim>\<open>ValueError\<close> that
  names the format, and no \<^verbatim>\<open>matches\<close> field; the backend is not called and the state
  is unchanged.
\<close>

theorem malformed_color_is_an_error:
  assumes "malformed_color color"
  shows "(\<exists>e. cls e = ValueError \<and> parse_color color = Inl e \<and>
           pixel_matches_color bk x y color tolerance s =
             (Returned
                [(''error'',
                  PyStr (''Failed to process color '' @ [CHR 0x27] @ color @ [CHR 0x27] @ '': ''
                         @ str_exn e))], s) \<and>
           \<not> has_key ''matches''
                [(''error'',
                  PyStr (''Failed to process color '' @ [CHR 0x27] @ color @ [CHR 0x27] @ '': ''
                         @ str_exn e))])
       \<and> (\<not> startswith color (CHR ''#'') \<and> \<not> startswith color (CHR ''('') \<longrightarrow>
            parse_color color =
              Inl (Exn ValueError ''Invalid color format. Use '#RRGGBB' or '(R, G, B)'.''))
       \<and> (startswith color (CHR ''#'') \<and> length (lstrip_chars ''#'' color) \<noteq> 6 \<longrightarrow>
            parse_color color = Inl (Exn ValueError ''Hex color must be in #RRGGBB format.''))
       \<and> (startswith color (CHR ''('') \<and> length (split_comma (strip_chars ''() '' color)) \<noteq> 3 \<longrightarrow>
            parse_color color =
              Inl (Exn ValueError ''RGB color must be a tuple/list of 3 integers.''))"
proof (intro conjI impI)
  from malformed_parse [OF assms] obtain e where e: "parse_color color = Inl e" "cls e = ValueError"
    by blast
  then have "is_Exception e" by (simp add: is_Exception_def)
  from pixel_matches_color_parse_error [OF e(1) this] e
  show "\<exists>e. cls e = ValueError \<and> parse_color color = Inl e \<and>
           pixel_matches_color bk x y color tolerance s =
             (Returned
                [(''error'',
                  PyStr (''Failed to process color '' @ [CHR 0x27] @ color @ [CHR 0x27] @ '': ''
                         @ str_exn e))], s) \<and>
           \<not> has_key ''matches''
                [(''error'',
                  PyStr (''Failed to process color '' @ [CHR 0x27] @ color @ [CHR 0x27] @ '': ''
                         @ str_exn e))]"
    by (auto simp: color_error_envelope_def has_key_simps)
qed (simp_all add: parse_color_def Let_def paren_not_hash)

theorem malformed_color_is_an_error_witness:
  "pixel_matches_color idle_backend 0 0 ''notacolor'' 0 (startup ()) =
     (Returned
        [(''error'',
          PyStr ''Failed to process color 'notacolor': Invalid color format. Use '#RRGGBB' or '(R, G, B)'.'')],
      startup ())"
proof -
  have m: "malformed_color ''notacolor''"
    by (simp add: malformed_color_def startswith_def)
  have p: "parse_color ''notacolor'' =
             Inl (Exn ValueError ''Invalid color format. Use '#RRGGBB' or '(R, G, B)'.'')"
    by (simp add: parse_color_def startswith_def)
  from malformed_color_is_an_error [OF m, of idle_backend 0 0 0 "startup ()", THEN conjunct1]
  show ?thesis unfolding p by auto
qed

lemma hex_digit_plain:
  assumes "hex_digit c"
  shows "\<not> int_space c" and "c \<noteq> CHR ''+''" and "c \<noteq> CHR ''-''" and "c \<noteq> CHR ''_''"
    and "c \<noteq> CHR ''x''" and "c \<noteq> CHR ''X''"
  using assms
  by (auto simp: hex_digit_def digit_value_def int_space_def Let_def split: if_splits)

lemma py_int_two_hex_digits:
  assumes "hex_digit a" and "hex_digit b"
  shows "py_int 16 [a, b] = Some (int (digit_value a * 16 + digit_value b))"
  using assms hex_digit_plain [OF assms(1)] hex_digit_plain [OF assms(2)]
  by (simp add: py_int_def skip_sign_def skip_prefix_def startswith_def hex_digit_def)

lemma hex_pair_in_range:
  assumes "hex_digit a" and "hex_digit b"
  shows "\<exists>v. int_of_str 16 [a, b] = Inr v \<and> 0 \<le> v \<and> v \<le> 255"
  using assms py_int_two_hex_digits [OF assms]
  by (simp add: int_of_str_def hex_digit_def)

lemma length_six:
  assumes "length xs = 6"
  obtains h0 h1 h2 h3 h4 h5 where "xs = [h0, h1, h2, h3, h4, h5]"
proof -
  from assms obtain h0 t0 where 0: "xs = h0 # t0" "length t0 = 5" by (cases xs) auto
  then obtain h1 t1 where 1: "t0 = h1 # t1" "length t1 = 4" by (cases t0) auto
  then obtain h2 t2 where 2: "t1 = h2 # t2" "length t2 = 3" by (cases t1) auto
  then obtain h3 t3 where 3: "t2 = h3 # t3" "length t3 = 2" by (cases t2) auto
  then obtain h4 t4 where 4: "t3 = h4 # t4" "length t4 = 1" by (cases t3) auto
  then obtain h5 where 5: "t4 = [h5]" by (cases t4) auto
  from 0 1 2 3 4 5 that show ?thesis by simp
qed

lemma hex_form_parse:
  assumes "startswith color (CHR ''#'')" and "lstrip_chars ''#'' color = [h0, h1, h2, h3, h4, h5]"
    and "int_of_str 16 [h0, h1] = Inr r" and "int_of_str 16 [h2, h3] = Inr g"
    and "int_of_str 16 [h4, h5] = Inr b"
  shows "parse_color color = Inr [r, g, b]"
  using assms by (simp add: parse_color_def Let_def)

lemma tuple_form_parse:
  assumes "startswith color (CHR ''('')" and "split_comma (strip_chars ''() '' color) = [c0, c1, c2]"
    and "py_int 10 (strip c0) = Some r'" and "py_int 10 (strip c1) = Some g'"
    and "py_int 10 (strip c2) = Some b'"
  shows "parse_color color = Inr [r', g', b']"
  using assms by (simp add: parse_color_def Let_def paren_not_hash int_of_str_def)

text \<open>
  Claim C7, as stated: every colour string that \<^verbatim>\<open>pixel_matches_color\<close> accepts parses
  to three channels in the range 0 to 255. It fails: the string \<^verbatim>\<open>(256, 0, 0)\<close> is
  accepted, parsed to the channel 256 and handed to the backend, and the string
  \<^verbatim>\<open>#-1-1-1\<close> is accepted with three channels of value -1, since \<^verbatim>\<open>int\<close> reads a sign.
\<close>

theorem channel_out_of_range_counterexample:
  "parse_color ''(256, 0, 0)'' = Inr [256, 0, 0]
   \<and> fst (pixel_matches_color idle_backend 0 0 ''(256, 0, 0)'' 0 (startup ())) =
       Returned [(''x'', PyInt 0), (''y'', PyInt 0), (''color'', PyStr ''(256, 0, 0)''),
                 (''matches'', PyBool False)]
   \<and> parse_color ''#-1-1-1'' = Inr [- 1, - 1, - 1]"
proof -
  have a: "parse_color ''(256, 0, 0)'' = Inr [256, 0, 0]"
    by code_simp
  have b: "parse_color ''#-1-1-1'' = Inr [- 1, - 1, - 1]"
    by code_simp
  have "fst (pixel_matches_color idle_backend 0 0 ''(256, 0, 0)'' 0 (startup ())) =
       Returned [(''x'', PyInt 0), (''y'', PyInt 0), (''color'', PyStr ''(256, 0, 0)''),
                 (''matches'', PyBool False)]"
    unfolding pixel_matches_color_def a
    by (simp add: idle_backend_def py_defs)
  with a b show ?thesis by simp
qed

text \<open>
  Claim C7, amended. A colour string in the form \<^verbatim>\<open>#RRGGBB\<close> whose six body characters
  are hexadecimal digits is accepted and each of its three channels lies in the range 0 to
  255. A string in the form \<^verbatim>\<open>(r, g, b)\<close> is accepted with whatever three integers
  its parts read as: no range is checked.
\<close>

theorem accepted_colors_and_their_channels:
  "(startswith color (CHR ''#'') \<and> length (lstrip_chars ''#'' color) = 6 \<and>
    list_all hex_digit (lstrip_chars ''#'' color) \<longrightarrow>
      (\<exists>r g b. parse_color color = Inr [r, g, b] \<and>
         0 \<le> r \<and> r \<le> 255 \<and> 0 \<le> g \<and> g \<le> 255 \<and> 0 \<le> b \<and> b \<le> 255))
   \<and> (startswith color (CHR ''('') \<and> split_comma (strip_chars ''() '' color) = [c0, c1, c2] \<and>
       py_int 10 (strip c0) = Some r' \<and> py_int 10 (strip c1) = Some g' \<and>
       py_int 10 (strip c2) = Some b' \<longrightarrow>
         parse_color color = Inr [r', g', b'])"
proof (intro conjI impI)
  assume a: "startswith color (CHR ''#'') \<and> length (lstrip_chars ''#'' color) = 6 \<and>
    list_all hex_digit (lstrip_chars ''#'' color)"
  then obtain h0 h1 h2 h3 h4 h5 where body: "lstrip_chars ''#'' color = [h0, h1, h2, h3, h4, h5]"
    using length_six by blast
  with a have hd: "hex_digit h0" "hex_digit h1" "hex_digit h2" "hex_digit h3" "hex_digit h4"
    "hex_digit h5" by simp_all
  from hex_pair_in_range [OF hd(1,2)] obtain r where
    r: "int_of_str 16 [h0, h1] = Inr r" "0 \<le> r" "r \<le> 255" by blast
  from hex_pair_in_range [OF hd(3,4)] obtain g where
    g: "int_of_str 16 [h2, h3] = Inr g" "0 \<le> g" "g \<le> 255" by blast
  from hex_pair_in_range [OF hd(5,6)] obtain b where
    b: "int_of_str 16 [h4, h5] = Inr b" "0 \<le> b" "b \<le> 255" by blast
  from a have "startswith color (CHR ''#'')" by simp
  from hex_form_parse [OF this body r(1) g(1) b(1)] r g b
  show "\<exists>r g b. parse_color color = Inr [r, g, b] \<and>
         0 \<le> r \<and> r \<le> 255 \<and> 0 \<le> g \<and> g \<le> 255 \<and> 0 \<le> b \<and> b \<le> 255"
    by blast
next
  assume "startswith color (CHR ''('') \<and> split_comma (strip_chars ''() '' color) = [c0, c1, c2] \<and>
       py_int 10 (strip c0) = Some r' \<and> py_int 10 (strip c1) = Some g' \<and>
       py_int 10 (strip c2) = Some b'"
  then show "parse_color color = Inr [r', g', b']"
    using tuple_form_parse by blast
qed

theorem accepted_colors_and_their_channels_witness:
  "parse_color ''#FF0000'' = Inr [255, 0, 0] \<and> parse_color ''(255, 0, 0)'' = Inr [255, 0, 0]"
proof -
  have h: "startswith ''#FF0000'' (CHR ''#'') \<and> length (lstrip_chars ''#'' ''#FF0000'') = 6 \<and>
    list_all hex_digit (lstrip_chars ''#'' ''#FF0000'')"
    by code_simp
  have t: "startswith ''(255, 0, 0)'' (CHR ''('') \<and>
       split_comma (strip_chars ''() '' ''(255, 0, 0)'') = [''255'', '' 0'', '' 0''] \<and>
       py_int 10 (strip ''255'') = Some 255 \<and> py_int 10 (strip '' 0'') = Some 0 \<and>
       py_int 10 (strip '' 0'') = Some 0"
    by code_simp
  have p: "parse_color ''#FF0000'' = Inr [255, 0, 0]"
    by code_simp
  from accepted_colors_and_their_channels
         [of "''#FF0000''" "[]" "[]" "[]" 0 0 0, THEN conjunct1, rule_format, OF h]
       accepted_colors_and_their_channels
         [of "''(255, 0, 0)''" "''255''" "'' 0''" "'' 0''" 255 0 0, THEN conjunct2, rule_format, OF t]
       p
  show ?thesis by simp
qed

end
